theory Spec2Isabelle
  imports Complex_Main "HOL-Library.Sublist"
begin

section \<open>The Python function runtime (apps/function-runtime/python/server.py)\<close>

text \<open>
  The server keeps two module globals, \<^verbatim>\<open>handler_func\<close> and \<^verbatim>\<open>load_error\<close>,
  loads the user's module from one file, and answers POST requests on
  \<^verbatim>\<open>/write-code\<close>, \<^verbatim>\<open>/reload\<close> and \<^verbatim>\<open>/invoke\<close>. The model below follows
  \<^verbatim>\<open>load_function\<close> and \<^verbatim>\<open>do_POST\<close> statement by statement, with the process
  state passed explicitly and every \<^verbatim>\<open>raise\<close> a value.

  What Python and its library supply (the interpreter that executes the module, the
  JSON codec, the traceback formatter, the wall clock, the two environment
  variables, the UTF-8 decoder) is a parameter, collected in the record \<open>env\<close>.
  Not modelled: the request logging that \<^verbatim>\<open>http.server\<close> does on its own, and
  failures of the file system and of the socket.
\<close>

subsection \<open>Values\<close>

text \<open>
  What \<^verbatim>\<open>json.loads\<close> returns: \<^verbatim>\<open>None\<close>, \<^verbatim>\<open>bool\<close>, \<^verbatim>\<open>int\<close>, \<^verbatim>\<open>float\<close>
  (a finite float is read as the real number it denotes), \<^verbatim>\<open>str\<close>, \<^verbatim>\<open>list\<close>
  and \<^verbatim>\<open>dict\<close> (keys in insertion order).
\<close>

datatype json =
    JNull
  | JBool bool
  | JInt int
  | JFloat real
  | JStr string
  | JArr "json list"
  | JObj "(string \<times> json) list"

text \<open>\<^verbatim>\<open>type(x).__name__\<close>, as it appears in the messages of the built-in errors.\<close>

fun type_name :: "json \<Rightarrow> string" where
  "type_name JNull = ''NoneType''"
| "type_name (JBool b) = ''bool''"
| "type_name (JInt i) = ''int''"
| "type_name (JFloat r) = ''float''"
| "type_name (JStr s) = ''str''"
| "type_name (JArr xs) = ''list''"
| "type_name (JObj kvs) = ''dict''"

text \<open>Python's truth value, which \<^verbatim>\<open>not code\<close> negates.\<close>

fun truthy :: "json \<Rightarrow> bool" where
  "truthy JNull = False"
| "truthy (JBool b) = b"
| "truthy (JInt i) = (i \<noteq> 0)"
| "truthy (JFloat r) = (r \<noteq> 0)"
| "truthy (JStr s) = (s \<noteq> [])"
| "truthy (JArr xs) = (xs \<noteq> [])"
| "truthy (JObj kvs) = (kvs \<noteq> [])"

text \<open>
  An exception: whether its class derives from \<^verbatim>\<open>Exception\<close> (what
  \<^verbatim>\<open>except Exception\<close> catches; \<^verbatim>\<open>SystemExit\<close> and \<^verbatim>\<open>KeyboardInterrupt\<close> do
  not), the class name, and \<^verbatim>\<open>str(e)\<close>.
\<close>

datatype pyexn = PyExn (is_Exception: bool) (exn_class: string) (exn_str: string)

definition AttributeError :: "string \<Rightarrow> pyexn" where
  "AttributeError msg = PyExn True ''AttributeError'' msg"

definition TypeError :: "string \<Rightarrow> pyexn" where
  "TypeError msg = PyExn True ''TypeError'' msg"

definition quoted :: "string \<Rightarrow> string" where
  "quoted t = [CHR 0x27] @ t @ [CHR 0x27]"

text \<open>
  A call of the user's handler is modelled by what it does to the server: the text it
  writes to \<^verbatim>\<open>sys.stdout\<close> and \<^verbatim>\<open>sys.stderr\<close>, in order, and how it ends, by
  raising or by returning a value that \<^verbatim>\<open>json.dumps\<close> can or cannot serialise
  (then the name of the offending type is kept). A handler is a function of its event;
  it is assumed to end.
\<close>

datatype emit = Out string | Err string

datatype retval = Serializable json | NotSerializable string

datatype invocation = Invocation (writes: "emit list") (outcome: "pyexn + retval")

text \<open>
  The objects a module attribute, and so \<^verbatim>\<open>handler_func\<close>, can be: \<^verbatim>\<open>None\<close>,
  a callable, or any other object (its type name is kept for the error message).
\<close>

datatype pyobj = PyNone | Callable "json \<Rightarrow> invocation" | NonCallable string

fun callable :: "pyobj \<Rightarrow> bool" where
  "callable (Callable h) = True"
| "callable PyNone = False"
| "callable (NonCallable t) = False"

fun obj_type_name :: "pyobj \<Rightarrow> string" where
  "obj_type_name PyNone = ''NoneType''"
| "obj_type_name (Callable h) = ''function''"
| "obj_type_name (NonCallable t) = t"

subsection \<open>Environment and process state\<close>

record env =
  FUNCTION_CODE_PATH :: string
  FUNCTION_HANDLER :: string
  exec_module :: "string \<Rightarrow> pyexn + (string \<rightharpoonup> pyobj)"
  decode_utf8 :: "string \<Rightarrow> pyexn + string"
  json_loads :: "string \<Rightarrow> pyexn + json"
  json_dumps :: "json \<Rightarrow> string"
  format_exc :: "pyexn \<Rightarrow> string"
  time_time :: "nat \<Rightarrow> real"

text \<open>
  \<open>exec_module\<close> stands for lines 43 to 50: building the module from the source text
  and executing it gives an exception or the module's namespace.
  \<open>decode_utf8\<close> is \<^verbatim>\<open>bytes.decode('utf-8')\<close>: it takes the bytes of a body and
  gives the text, or raises on bytes that are not UTF-8.
  \<open>time_time env n\<close> is the value of the \<open>n\<close>-th reading of the clock.

  The process state: the two globals, the content of the file at
  \<^verbatim>\<open>FUNCTION_CODE_PATH\<close> (\<open>None\<close> when it does not exist), and the text streams.
  A stream is an object with an identity: \<open>sys_stdout\<close> and \<open>sys_stderr\<close> hold
  references, \<open>streams\<close> maps a reference to the text written to it so far, and
  \<open>next_stream\<close> is the next unused reference. \<open>clock_reads\<close> counts the readings
  of the clock. \<open>calls\<close> is a ghost field: the arguments of the calls of a callable
  \<^verbatim>\<open>handler_func\<close>, in order.
\<close>

record runtime =
  handler_func :: pyobj
  load_error :: "string option"
  code_file :: "string option"
  sys_stdout :: nat
  sys_stderr :: nat
  streams :: "nat \<Rightarrow> string"
  next_stream :: nat
  clock_reads :: nat
  calls :: "json list"

definition stream_write :: "nat \<Rightarrow> string \<Rightarrow> runtime \<Rightarrow> runtime" where
  "stream_write r txt s = s\<lparr>streams := (streams s)(r := streams s r @ txt)\<rparr>"

text \<open>\<^verbatim>\<open>print(txt)\<close> and \<^verbatim>\<open>print(txt, file=sys.stderr)\<close>.\<close>

definition print_stdout :: "string \<Rightarrow> runtime \<Rightarrow> runtime" where
  "print_stdout txt s = stream_write (sys_stdout s) (txt @ ''\<newline>'') s"

definition print_stderr :: "string \<Rightarrow> runtime \<Rightarrow> runtime" where
  "print_stderr txt s = stream_write (sys_stderr s) (txt @ ''\<newline>'') s"

text \<open>\<^verbatim>\<open>StringIO()\<close>: a new, empty stream.\<close>

definition StringIO :: "runtime \<Rightarrow> nat \<times> runtime" where
  "StringIO s =
     (next_stream s,
      s\<lparr>streams := (streams s)(next_stream s := []), next_stream := Suc (next_stream s)\<rparr>)"

definition getvalue :: "nat \<Rightarrow> runtime \<Rightarrow> string" where
  "getvalue r s = streams s r"

definition time_now :: "env \<Rightarrow> runtime \<Rightarrow> real \<times> runtime" where
  "time_now env s = (time_time env (clock_reads s), s\<lparr>clock_reads := Suc (clock_reads s)\<rparr>)"

subsection \<open>Strings\<close>

text \<open>
  A character is a code point below 256. \<^verbatim>\<open>str.strip()\<close> removes the characters
  that \<^verbatim>\<open>str.isspace\<close> accepts from both ends; below 256 these are 9 to 13,
  28 to 32, 0x85 and 0xA0.
\<close>

definition isspace :: "char \<Rightarrow> bool" where
  "isspace c =
     (let n = (of_char c :: nat)
      in (9 \<le> n \<and> n \<le> 13) \<or> (28 \<le> n \<and> n \<le> 32) \<or> n = 133 \<or> n = 160)"

definition strip :: "string \<Rightarrow> string" where
  "strip t = rev (dropWhile isspace (rev (dropWhile isspace t)))"

text \<open>
  \<^verbatim>\<open>t.split('\n')\<close>: one more piece than there are line breaks. A character
  that is not a line break joins the first piece of the rest (the rest always has one).
\<close>

fun split_nl :: "string \<Rightarrow> string list" where
  "split_nl [] = [[]]"
| "split_nl (c # cs) =
     (if c = CHR 0x0A then [] # split_nl cs
      else (case split_nl cs of [] \<Rightarrow> [[c]] | piece # pieces \<Rightarrow> (c # piece) # pieces))"

text \<open>\<^verbatim>\<open>str(n)\<close> for an integer.\<close>

fun str_nat :: "nat \<Rightarrow> string" where
  "str_nat n =
     (if n < 10 then [''0123456789'' ! n]
      else str_nat (n div 10) @ [''0123456789'' ! (n mod 10)])"

declare str_nat.simps [simp del]

definition str_int :: "int \<Rightarrow> string" where
  "str_int i = (if i < 0 then ''-'' @ str_nat (nat (- i)) else str_nat (nat i))"

text \<open>\<^verbatim>\<open>int(x)\<close> for a float: truncation towards zero.\<close>

definition int_of_float :: "real \<Rightarrow> int" where
  "int_of_float x = (if 0 \<le> x then \<lfloor>x\<rfloor> else \<lceil>x\<rceil>)"

subsection \<open>load\_function (lines 32 to 69)\<close>

text \<open>
  The result is the exception that leaves the function (one that \<^verbatim>\<open>except Exception\<close>
  does not catch) or the returned boolean, with the new state.
\<close>

definition load_except :: "env \<Rightarrow> pyexn \<Rightarrow> runtime \<Rightarrow> (pyexn + bool) \<times> runtime" where
  "load_except env e s =
     (if is_Exception e then
        (let s1 = s\<lparr>load_error := Some (exn_str e)\<rparr>;
             s2 = print_stderr (''[Runtime] Failed to load function: '' @ exn_str e) s1;
             s3 = stream_write (sys_stderr s2) (format_exc env e) s2
         in (Inr False, s3))
      else (Inl e, s))"

definition load_function :: "env \<Rightarrow> runtime \<Rightarrow> (pyexn + bool) \<times> runtime" where
  "load_function env s =
     (case code_file s of
        None \<Rightarrow>
          (let s1 = s\<lparr>load_error :=
                        Some (''Function code not found at '' @ FUNCTION_CODE_PATH env)\<rparr>;
               s2 = print_stderr
                      (''[Runtime] Function code not found at '' @ FUNCTION_CODE_PATH env) s1
           in (Inr False, s2))
      | Some src \<Rightarrow>
          (case exec_module env src of
             Inl e \<Rightarrow> load_except env e s
           | Inr namespace \<Rightarrow>
               (case namespace (FUNCTION_HANDLER env) of
                  None \<Rightarrow>
                    load_except env
                      (AttributeError
                         (''Handler '' @ quoted (FUNCTION_HANDLER env) @ '' not found in module''))
                      s
                | Some obj \<Rightarrow>
                    (let s1 = s\<lparr>handler_func := obj\<rparr>
                     in if \<not> callable obj then
                          load_except env
                            (TypeError
                               (''Handler '' @ quoted (FUNCTION_HANDLER env) @ '' is not callable''))
                            s1
                        else
                          (let s2 = s1\<lparr>load_error := None\<rparr>;
                               s3 = print_stdout
                                      (''[Runtime] Loaded function handler: ''
                                         @ FUNCTION_HANDLER env) s2
                           in (Inr True, s3))))))"

subsection \<open>Requests and responses\<close>

text \<open>
  A request: its path, what \<^verbatim>\<open>int(self.headers.get('Content-Length', 0))\<close> gives
  (the number, 0 without the header, or the \<^verbatim>\<open>ValueError\<close> raised on a header that
  is not a number), and the bytes that \<^verbatim>\<open>rfile\<close> holds.
\<close>

record request =
  path :: string
  content_length :: "pyexn + int"
  rfile :: string

text \<open>
  Lines 109 to 110 and 151 to 152: the body is the first \<^verbatim>\<open>content_length\<close> bytes,
  decoded, and the text \<^verbatim>\<open>{}\<close> when the length is not positive. Both lines stand
  outside the \<^verbatim>\<open>try\<close>: what they raise leaves \<^verbatim>\<open>do_POST\<close>.
\<close>

definition read_body :: "env \<Rightarrow> request \<Rightarrow> pyexn + string" where
  "read_body env req =
     (case content_length req of
        Inl e \<Rightarrow> Inl e
      | Inr n \<Rightarrow>
          if n > 0 then decode_utf8 env (take (nat n) (rfile req)) else Inr ''{}'')"

text \<open>
  What a handler of a request puts on the wire: \<open>Head c\<close> is the status line with
  code \<open>c\<close> and the headers, \<open>Body j\<close> the encoding of \<^verbatim>\<open>json.dumps(j)\<close>.
\<close>

datatype wire = Head int | Body json

text \<open>
  \<^verbatim>\<open>json.dumps(data)\<close> for the dictionaries the server sends: it raises on the first
  value it cannot serialise.
\<close>

fun dumps_data :: "(string \<times> retval) list \<Rightarrow> pyexn + (string \<times> json) list" where
  "dumps_data [] = Inr []"
| "dumps_data ((k, Serializable j) # kvs) =
     (case dumps_data kvs of Inl e \<Rightarrow> Inl e | Inr r \<Rightarrow> Inr ((k, j) # r))"
| "dumps_data ((k, NotSerializable t) # kvs) =
     Inl (TypeError (''Object of type '' @ t @ '' is not JSON serializable''))"

text \<open>
  \<^verbatim>\<open>send_json_response\<close> (lines 79 to 84): status line and headers go out before
  \<^verbatim>\<open>json.dumps\<close> runs. The result is the exception raised, if any, and what was sent.
\<close>

definition send_json_response :: "int \<Rightarrow> (string \<times> retval) list \<Rightarrow> pyexn option \<times> wire list" where
  "send_json_response status_code data =
     (case dumps_data data of
        Inl e \<Rightarrow> (Some e, [Head status_code])
      | Inr kvs \<Rightarrow> (None, [Head status_code, Body (JObj kvs)]))"

text \<open>\<^verbatim>\<open>d.get(k, default)\<close>: only a \<^verbatim>\<open>dict\<close> has the method.\<close>

fun dict_get :: "json \<Rightarrow> string \<Rightarrow> json \<Rightarrow> pyexn + json" where
  "dict_get (JObj kvs) k d = Inr (case map_of kvs k of None \<Rightarrow> d | Some v \<Rightarrow> v)"
| "dict_get j k d =
     Inl (AttributeError (quoted (type_name j) @ '' object has no attribute '' @ quoted ''get''))"

definition str_or_null :: "string option \<Rightarrow> json" where
  "str_or_null m = (case m of None \<Rightarrow> JNull | Some t \<Rightarrow> JStr t)"

definition not_found :: "pyexn option \<times> wire list" where
  "not_found =
     send_json_response 404
       [(''error'', Serializable (JStr ''Not found'')),
        (''endpoints'', Serializable (JObj
           [(''GET /health'', JStr ''Health check''),
            (''POST /invoke'', JStr ''Execute function''),
            (''POST /reload'', JStr ''Reload function code'')]))]"

subsection \<open>do\_POST, /write-code (lines 107 to 132)\<close>

text \<open>
  \<^verbatim>\<open>open(path, 'w')\<close> empties the file before \<^verbatim>\<open>f.write(code)\<close> rejects a value
  that is not a string.
\<close>

definition write_file :: "json \<Rightarrow> runtime \<Rightarrow> pyexn option \<times> runtime" where
  "write_file code s =
     (case code of
        JStr txt \<Rightarrow> (None, s\<lparr>code_file := Some txt\<rparr>)
      | _ \<Rightarrow> (Some (TypeError (''write() argument must be str, not '' @ type_name code)),
              s\<lparr>code_file := Some []\<rparr>))"

text \<open>
  The body of the \<^verbatim>\<open>try\<close>: the exception it raises if any, what it has sent, and
  the state.
\<close>

definition write_code_try :: "env \<Rightarrow> string \<Rightarrow> runtime \<Rightarrow> pyexn option \<times> wire list \<times> runtime" where
  "write_code_try env body s =
     (case json_loads env body of
        Inl e \<Rightarrow> (Some e, [], s)
      | Inr data \<Rightarrow>
          (case dict_get data ''code'' JNull of
             Inl e \<Rightarrow> (Some e, [], s)
           | Inr code \<Rightarrow>
               if \<not> truthy code then
                 (let (ex, w) = send_json_response 400
                                  [(''error'', Serializable (JStr ''Missing code field''))]
                  in (ex, w, s))
               else
                 (case write_file code s of
                    (Some e, s1) \<Rightarrow> (Some e, [], s1)
                  | (None, s1) \<Rightarrow>
                      (case load_function env s1 of
                         (Inl e, s2) \<Rightarrow> (Some e, [], s2)
                       | (Inr success, s2) \<Rightarrow>
                           (let (ex, w) = send_json_response (if success then 200 else 500)
                                            [(''success'', Serializable (JBool success)),
                                             (''error'', Serializable (str_or_null (load_error s2)))]
                            in (ex, w, s2))))))"

text \<open>
  A request handler's result: the exception that leaves \<^verbatim>\<open>do_POST\<close> if any, what
  was sent, and the state.
\<close>

definition do_POST_write_code :: "env \<Rightarrow> request \<Rightarrow> runtime \<Rightarrow> pyexn option \<times> wire list \<times> runtime" where
  "do_POST_write_code env req s =
     (case read_body env req of
        Inl e \<Rightarrow> (Some e, [], s)
      | Inr body \<Rightarrow>
          (case write_code_try env body s of
             (None, w, s1) \<Rightarrow> (None, w, s1)
           | (Some e, w, s1) \<Rightarrow>
               if is_Exception e then
                 (let (ex, w') = send_json_response 500
                                   [(''error'', Serializable (JStr (exn_str e)))]
                  in (ex, w @ w', s1))
               else (Some e, w, s1)))"

subsection \<open>do\_POST, /reload (lines 134 to 139)\<close>

definition do_POST_reload :: "env \<Rightarrow> runtime \<Rightarrow> pyexn option \<times> wire list \<times> runtime" where
  "do_POST_reload env s =
     (case load_function env s of
        (Inl e, s1) \<Rightarrow> (Some e, [], s1)
      | (Inr success, s1) \<Rightarrow>
          (let (ex, w) = send_json_response (if success then 200 else 500)
                           [(''success'', Serializable (JBool success)),
                            (''error'', Serializable (str_or_null (load_error s1)))]
           in (ex, w, s1)))"

subsection \<open>do\_POST, /invoke (lines 141 to 212)\<close>

fun do_write :: "emit \<Rightarrow> runtime \<Rightarrow> runtime" where
  "do_write (Out t) s = stream_write (sys_stdout s) t s"
| "do_write (Err t) s = stream_write (sys_stderr s) t s"

text \<open>
  Line 172, \<^verbatim>\<open>handler_func(event)\<close>: a callable writes to the streams that are
  installed and ends; anything else cannot be called.
\<close>

definition call_handler :: "json \<Rightarrow> runtime \<Rightarrow> (pyexn + retval) \<times> runtime" where
  "call_handler event s =
     (case handler_func s of
        Callable h \<Rightarrow>
          (outcome (h event), fold do_write (writes (h event)) (s\<lparr>calls := calls s @ [event]\<rparr>))
      | obj \<Rightarrow> (Inl (TypeError (quoted (obj_type_name obj) @ '' object is not callable'')), s))"

text \<open>Lines 175 to 181.\<close>

definition capture_logs :: "string list \<Rightarrow> runtime \<Rightarrow> string list" where
  "capture_logs logs s =
     (let stdout_value = getvalue (sys_stdout s) s;
          stderr_value = getvalue (sys_stderr s) s;
          logs1 = (if stdout_value \<noteq> [] then logs @ split_nl (strip stdout_value) else logs);
          logs2 = (if stderr_value \<noteq> []
                   then logs1 @ map (\<lambda>line. ''[ERROR] '' @ line) (split_nl (strip stderr_value))
                   else logs1)
      in logs2)"

text \<open>
  Lines 165 to 186: the redirection, the inner \<^verbatim>\<open>try\<close> and its \<^verbatim>\<open>finally\<close>.
  The result carries the list \<^verbatim>\<open>logs\<close> as the inner \<^verbatim>\<open>try\<close> leaves it.
\<close>

definition invoke_captured :: "json \<Rightarrow> string list \<Rightarrow> runtime \<Rightarrow> (pyexn + retval) \<times> string list \<times> runtime" where
  "invoke_captured event logs s =
     (let old_stdout = sys_stdout s;
          old_stderr = sys_stderr s;
          (out, s1) = StringIO s;
          s2 = s1\<lparr>sys_stdout := out\<rparr>;
          (err, s3) = StringIO s2;
          s4 = s3\<lparr>sys_stderr := err\<rparr>;
          (res, s5) = call_handler event s4;
          logs' = (case res of Inl e \<Rightarrow> logs | Inr result \<Rightarrow> capture_logs logs s5);
          s6 = s5\<lparr>sys_stdout := old_stdout, sys_stderr := old_stderr\<rparr>
      in (res, logs', s6))"

definition success_envelope :: "int \<Rightarrow> retval \<Rightarrow> string list \<Rightarrow> (string \<times> retval) list" where
  "success_envelope duration_ms result logs =
     [(''status'', Serializable (JStr ''success'')),
      (''duration_ms'', Serializable (JInt duration_ms)),
      (''response'', result),
      (''logs'', Serializable (JArr (map JStr logs)))]"

definition error_envelope :: "env \<Rightarrow> int \<Rightarrow> pyexn \<Rightarrow> string list \<Rightarrow> (string \<times> retval) list" where
  "error_envelope env duration_ms e logs =
     [(''status'', Serializable (JStr ''error'')),
      (''duration_ms'', Serializable (JInt duration_ms)),
      (''error'', Serializable (JStr (exn_str e))),
      (''stack'', Serializable (JStr (format_exc env e))),
      (''logs'', Serializable (JArr (map JStr logs)))]"

text \<open>
  The body of the outer \<^verbatim>\<open>try\<close> (lines 158 to 198): the exception it raises if any,
  the list \<^verbatim>\<open>logs\<close> at that moment, what it has sent, and the state.
\<close>

definition invoke_try :: "env \<Rightarrow> string \<Rightarrow> real \<Rightarrow> runtime \<Rightarrow> pyexn option \<times> string list \<times> wire list \<times> runtime" where
  "invoke_try env body start_time s =
     (case json_loads env body of
        Inl e \<Rightarrow> (Some e, [], [], s)
      | Inr parsed \<Rightarrow>
          (case dict_get parsed ''event'' parsed of
             Inl e \<Rightarrow> (Some e, [], [], s)
           | Inr event \<Rightarrow>
               (let s1 = print_stdout
                           (''[Runtime] Invoking function with event: '' @ json_dumps env event) s
                in case invoke_captured event [] s1 of
                     (Inl e, logs, s2) \<Rightarrow> (Some e, logs, [], s2)
                   | (Inr result, logs, s2) \<Rightarrow>
                       (let (t, s3) = time_now env s2;
                            duration_ms = int_of_float ((t - start_time) * 1000);
                            (ex, w) = send_json_response 200
                                        (success_envelope duration_ms result logs)
                        in case ex of
                             Some e \<Rightarrow> (Some e, logs, w, s3)
                           | None \<Rightarrow>
                               (None, logs, w,
                                print_stdout
                                  (''[Runtime] Function completed in '' @ str_int duration_ms
                                     @ ''ms'') s3)))))"

text \<open>\<^verbatim>\<open>load_error or 'Function not loaded'\<close>.\<close>

definition not_loaded_message :: "string option \<Rightarrow> string" where
  "not_loaded_message m =
     (case m of
        None \<Rightarrow> ''Function not loaded''
      | Some t \<Rightarrow> if t = [] then ''Function not loaded'' else t)"

definition do_POST_invoke :: "env \<Rightarrow> request \<Rightarrow> runtime \<Rightarrow> pyexn option \<times> wire list \<times> runtime" where
  "do_POST_invoke env req s =
     (if handler_func s = PyNone then
        (let (ex, w) = send_json_response 500
                         [(''status'', Serializable (JStr ''error'')),
                          (''error'', Serializable (JStr (not_loaded_message (load_error s))))]
         in (ex, w, s))
      else
        (case read_body env req of
           Inl e \<Rightarrow> (Some e, [], s)
         | Inr body \<Rightarrow>
             (let (start_time, s1) = time_now env s
              in case invoke_try env body start_time s1 of
                   (None, logs, w, s2) \<Rightarrow> (None, w, s2)
                 | (Some e, logs, w, s2) \<Rightarrow>
                     if is_Exception e then
                       (let (t, s3) = time_now env s2;
                            duration_ms = int_of_float ((t - start_time) * 1000);
                            (ex, w') = send_json_response 500
                                         (error_envelope env duration_ms e logs)
                        in case ex of
                             Some e' \<Rightarrow> (Some e', w @ w', s3)
                           | None \<Rightarrow>
                               (None, w @ w',
                                print_stderr (''[Runtime] Function failed: '' @ exn_str e) s3))
                     else (Some e, w, s2))))"

subsection \<open>do\_POST (lines 105 to 222)\<close>

definition do_POST :: "env \<Rightarrow> request \<Rightarrow> runtime \<Rightarrow> pyexn option \<times> wire list \<times> runtime" where
  "do_POST env req s =
     (if path req = ''/write-code'' then do_POST_write_code env req s
      else if path req = ''/reload'' then do_POST_reload env s
      else if path req = ''/invoke'' then do_POST_invoke env req s
      else (let (ex, w) = not_found in (ex, w, s)))"

section \<open>Vocabulary of the properties\<close>

text \<open>
  The text a handler call writes to each channel, in the order of the writes to that
  channel.
\<close>

fun out_text :: "emit list \<Rightarrow> string" where
  "out_text [] = []"
| "out_text (Out t # ws) = t @ out_text ws"
| "out_text (Err t # ws) = out_text ws"

fun err_text :: "emit list \<Rightarrow> string" where
  "err_text [] = []"
| "err_text (Out t # ws) = err_text ws"
| "err_text (Err t # ws) = t @ err_text ws"

text \<open>
  What lines 178 to 181 make of one channel's text: nothing when it is empty, else the
  pieces of the stripped text.
\<close>

definition channel_lines :: "string \<Rightarrow> string list" where
  "channel_lines t = (if t = [] then [] else split_nl (strip t))"

text \<open>
  The specification's reading of the same step, section 4.3: "split on line breaks,
  trailing blank line dropped", and the error channel's lines prefixed.
\<close>

definition spec_channel_lines :: "string \<Rightarrow> string list" where
  "spec_channel_lines t = (let ls = split_nl t in if last ls = [] then butlast ls else ls)"

definition spec_logs :: "emit list \<Rightarrow> string list" where
  "spec_logs ws =
     spec_channel_lines (out_text ws)
       @ map (\<lambda>line. ''[ERROR] '' @ line) (spec_channel_lines (err_text ws))"

text \<open>\<open>mentions msg t\<close>: the text \<open>t\<close> occurs in \<open>msg\<close>.\<close>

fun mentions :: "string \<Rightarrow> string \<Rightarrow> bool" where
  "mentions [] t = (t = [])"
| "mentions (c # cs) t = (prefix t (c # cs) \<or> mentions cs t)"

text \<open>
  The envelope of an invocation fault as section 6 gives it: status \<^verbatim>\<open>error\<close>
  with a duration and a stack.
\<close>

fun fault_envelope :: "wire \<Rightarrow> bool" where
  "fault_envelope (Body (JObj kvs)) =
     (map_of kvs ''status'' = Some (JStr ''error'')
      \<and> map_of kvs ''duration_ms'' \<noteq> None \<and> map_of kvs ''stack'' \<noteq> None)"
| "fault_envelope w = False"

text \<open>The event that line 160 selects from a body that is a JSON object.\<close>

definition event_of :: "(string \<times> json) list \<Rightarrow> json" where
  "event_of kvs = (case map_of kvs ''event'' of None \<Rightarrow> JObj kvs | Some v \<Rightarrow> v)"

text \<open>
  The duration that a request handled in state \<open>s\<close> reports: lines 154 and 188 (or
  201) take the next two readings of the clock.
\<close>

definition duration_of :: "env \<Rightarrow> runtime \<Rightarrow> int" where
  "duration_of env s =
     int_of_float ((time_time env (Suc (clock_reads s)) - time_time env (clock_reads s)) * 1000)"

text \<open>
  A response body says \<^verbatim>\<open>success: true\<close> exactly when it says \<^verbatim>\<open>error: null\<close>.
\<close>

fun success_iff_null :: "wire \<Rightarrow> bool" where
  "success_iff_null (Body (JObj kvs)) =
     ((map_of kvs ''success'' = Some (JBool True)) = (map_of kvs ''error'' = Some JNull))"
| "success_iff_null w = True"

section \<open>A concrete environment and concrete handlers\<close>

text \<open>
  The examples run in this environment: the default path and handler name, a clock
  that advances one second per reading, and the interpreter and the JSON codec on the
  sources and bodies that the examples use.
\<close>

definition echo_handler :: "json \<Rightarrow> invocation" where
  "echo_handler event = Invocation [] (Inr (Serializable event))"

definition echo_source :: string where
  "echo_source = ''def handler(event):\<newline>    return event\<newline>''"

definition broken_source :: string where
  "broken_source = ''def handler(event) return event''"

definition demo_exec :: "string \<Rightarrow> pyexn + (string \<rightharpoonup> pyobj)" where
  "demo_exec src =
     (if src = echo_source then Inr [''handler'' \<mapsto> Callable echo_handler]
      else if src = broken_source
      then Inl (PyExn True ''SyntaxError'' ''invalid syntax (code.py, line 1)'')
      else Inr Map.empty)"

definition demo_codec :: "(string \<times> json) list" where
  \<open>demo_codec =
     [(''{}'', JObj []),
      (''{"event": {"x": 1}}'', JObj [(''event'', JObj [(''x'', JInt 1)])]),
      (''{"x": 1}'', JObj [(''x'', JInt 1)]),
      (''{"code": ""}'', JObj [(''code'', JStr [])]),
      (''{"code": "def handler(event) return event"}'',
         JObj [(''code'', JStr broken_source)]),
      (''[1, 2]'', JArr [JInt 1, JInt 2])]\<close>

definition demo_loads :: "string \<Rightarrow> pyexn + json" where
  "demo_loads body =
     (case map_of demo_codec body of
        Some j \<Rightarrow> Inr j
      | None \<Rightarrow>
          Inl (PyExn True ''JSONDecodeError'' ''Expecting value: line 1 column 1 (char 0)''))"

definition demo_dumps :: "json \<Rightarrow> string" where
  "demo_dumps j =
     (case map_of (map (\<lambda>(t, v). (v, t)) demo_codec) j of Some t \<Rightarrow> t | None \<Rightarrow> [])"

text \<open>
  The decoder of the examples: ASCII bytes are their own text, and a body with a byte
  of 0x80 or more is refused (the examples use one such body, the single byte 0xFF,
  which no UTF-8 text contains).
\<close>

definition demo_decode :: "string \<Rightarrow> pyexn + string" where
  "demo_decode bytes =
     (if list_ex digit7 bytes
      then Inl (PyExn True ''UnicodeDecodeError''
                  ''invalid start byte'')
      else Inr bytes)"

definition demo_format_exc :: "pyexn \<Rightarrow> string" where
  "demo_format_exc e =
     ''Traceback (most recent call last):\<newline>'' @ exn_class e @ '': '' @ exn_str e
       @ ''\<newline>''"

definition demo_env :: env where
  "demo_env =
     \<lparr>FUNCTION_CODE_PATH = ''/function/code.py'',
      FUNCTION_HANDLER = ''handler'',
      exec_module = demo_exec,
      decode_utf8 = demo_decode,
      json_loads = demo_loads,
      json_dumps = demo_dumps,
      format_exc = demo_format_exc,
      time_time = (\<lambda>n. real n)\<rparr>"

text \<open>
  The process before \<^verbatim>\<open>run_server\<close> calls \<^verbatim>\<open>load_function\<close>, with the given
  content of the code file, and a process in which \<open>h\<close> is loaded.
\<close>

definition initial :: "string option \<Rightarrow> runtime" where
  "initial file =
     \<lparr>handler_func = PyNone, load_error = None, code_file = file,
      sys_stdout = 0, sys_stderr = 1, streams = (\<lambda>r. []), next_stream = 2,
      clock_reads = 0, calls = []\<rparr>"

definition loaded :: "(json \<Rightarrow> invocation) \<Rightarrow> runtime" where
  "loaded h = (initial None)\<lparr>handler_func := Callable h\<rparr>"

definition post :: "string \<Rightarrow> string \<Rightarrow> request" where
  "post p body = \<lparr>path = p, content_length = Inr (int (length body)), rfile = body\<rparr>"

text \<open>
  \<^verbatim>\<open>print("hello"); raise ValueError("boom")\<close>, and a handler that prints an
  indented line, a line to the error channel and a second line, then returns 1.
\<close>

definition hello_raise_handler :: "json \<Rightarrow> invocation" where
  "hello_raise_handler event =
     Invocation [Out ''hello'', Out ''\<newline>''] (Inl (PyExn True ''ValueError'' ''boom''))"

definition indent_handler :: "json \<Rightarrow> invocation" where
  "indent_handler event =
     Invocation
       [Out ''  first'', Out ''\<newline>'', Err ''oops'', Err ''\<newline>'',
        Out ''second'', Out ''\<newline>'']
       (Inr (Serializable (JInt 1)))"

text \<open>The process after a start that found no code file.\<close>

definition startup_without_code :: runtime where
  "startup_without_code = snd (load_function demo_env (initial None))"

text \<open>The same process once a working module has been put at the path.\<close>

definition code_arrives :: runtime where
  "code_arrives = startup_without_code\<lparr>code_file := Some echo_source\<rparr>"

text \<open>
  A process that started with a working module, a /write-code request that carries a
  module that does not parse, and the process after that request.
\<close>

definition after_startup :: runtime where
  "after_startup = snd (load_function demo_env (initial (Some echo_source)))"

definition bad_write :: request where
  \<open>bad_write = post ''/write-code'' ''{"code": "def handler(event) return event"}''\<close>

definition after_bad_write :: runtime where
  "after_bad_write = snd (snd (do_POST demo_env bad_write after_startup))"

section \<open>Basic facts about the streams\<close>

lemma do_write_fixed [simp]:
  "sys_stdout (do_write w s) = sys_stdout s"
  "sys_stderr (do_write w s) = sys_stderr s"
  "handler_func (do_write w s) = handler_func s"
  "load_error (do_write w s) = load_error s"
  "code_file (do_write w s) = code_file s"
  "next_stream (do_write w s) = next_stream s"
  "clock_reads (do_write w s) = clock_reads s"
  "calls (do_write w s) = calls s"
  by (cases w; simp add: stream_write_def)+

lemma fold_do_write_fixed [simp]:
  "sys_stdout (fold do_write ws s) = sys_stdout s"
  "sys_stderr (fold do_write ws s) = sys_stderr s"
  "handler_func (fold do_write ws s) = handler_func s"
  "load_error (fold do_write ws s) = load_error s"
  "code_file (fold do_write ws s) = code_file s"
  "next_stream (fold do_write ws s) = next_stream s"
  "clock_reads (fold do_write ws s) = clock_reads s"
  "calls (fold do_write ws s) = calls s"
  by (induction ws arbitrary: s; simp)+

text \<open>
  With two different streams installed, each receives exactly the writes to its
  channel, in order.
\<close>

lemma fold_do_write_stdout:
  "sys_stdout s \<noteq> sys_stderr s \<Longrightarrow>
     streams (fold do_write ws s) (sys_stdout s) = streams s (sys_stdout s) @ out_text ws"
proof (induction ws arbitrary: s)
  case Nil
  then show ?case by simp
next
  case (Cons w ws)
  have "streams (fold do_write ws (do_write w s)) (sys_stdout (do_write w s)) =
          streams (do_write w s) (sys_stdout (do_write w s)) @ out_text ws"
    using Cons.prems by (intro Cons.IH) simp
  then show ?case
    using Cons.prems by (cases w) (simp_all add: stream_write_def)
qed

lemma fold_do_write_stderr:
  "sys_stdout s \<noteq> sys_stderr s \<Longrightarrow>
     streams (fold do_write ws s) (sys_stderr s) = streams s (sys_stderr s) @ err_text ws"
proof (induction ws arbitrary: s)
  case Nil
  then show ?case by simp
next
  case (Cons w ws)
  have "streams (fold do_write ws (do_write w s)) (sys_stderr (do_write w s)) =
          streams (do_write w s) (sys_stderr (do_write w s)) @ err_text ws"
    using Cons.prems by (intro Cons.IH) simp
  then show ?case
    using Cons.prems by (cases w) (simp_all add: stream_write_def)
qed

section \<open>The handler call under capture\<close>

text \<open>
  The state in which a callable handler runs: both channels rebound to new, empty
  streams.
\<close>

lemma invoke_captured_callable:
  assumes "handler_func s = Callable h"
  shows "invoke_captured event logs s =
           (outcome (h event),
            (case outcome (h event) of
               Inl e \<Rightarrow> logs
             | Inr result \<Rightarrow>
                 logs @ channel_lines (out_text (writes (h event)))
                   @ map (\<lambda>line. ''[ERROR] '' @ line)
                       (channel_lines (err_text (writes (h event))))),
            (fold do_write (writes (h event))
               (s\<lparr>sys_stdout := next_stream s,
                   streams := (streams s)(next_stream s := [], Suc (next_stream s) := []),
                   next_stream := Suc (Suc (next_stream s)),
                   sys_stderr := Suc (next_stream s),
                   calls := calls s @ [event]\<rparr>))
              \<lparr>sys_stdout := sys_stdout s, sys_stderr := sys_stderr s\<rparr>)"
proof -
  define s4 where
    "s4 = s\<lparr>sys_stdout := next_stream s,
            streams := (streams s)(next_stream s := [], Suc (next_stream s) := []),
            next_stream := Suc (Suc (next_stream s)),
            sys_stderr := Suc (next_stream s),
            calls := calls s @ [event]\<rparr>"
  have ne: "sys_stdout s4 \<noteq> sys_stderr s4"
    by (simp add: s4_def)
  have out: "streams (fold do_write (writes (h event)) s4) (next_stream s)
               = out_text (writes (h event))"
    using fold_do_write_stdout [OF ne, of "writes (h event)"] by (simp add: s4_def)
  have err: "streams (fold do_write (writes (h event)) s4) (Suc (next_stream s))
               = err_text (writes (h event))"
    using fold_do_write_stderr [OF ne, of "writes (h event)"] by (simp add: s4_def)
  have run: "invoke_captured event logs s =
          (outcome (h event),
           (case outcome (h event) of
              Inl e \<Rightarrow> logs
            | Inr result \<Rightarrow> capture_logs logs (fold do_write (writes (h event)) s4)),
           (fold do_write (writes (h event)) s4)
             \<lparr>sys_stdout := sys_stdout s, sys_stderr := sys_stderr s\<rparr>)"
    using assms
    by (cases "outcome (h event)")
      (simp_all add: invoke_captured_def StringIO_def call_handler_def split_def Let_def s4_def)
  have "capture_logs logs (fold do_write (writes (h event)) s4) =
          logs @ channel_lines (out_text (writes (h event)))
            @ map (\<lambda>line. ''[ERROR] '' @ line) (channel_lines (err_text (writes (h event))))"
    using out err
    by (simp add: capture_logs_def getvalue_def channel_lines_def s4_def Let_def)
  with run show ?thesis
    by (simp add: s4_def split: sum.splits)
qed

text \<open>An object that is not callable raises at once; nothing is captured.\<close>

lemma invoke_captured_not_callable:
  assumes "\<not> callable (handler_func s)"
  shows "invoke_captured event logs s =
           (Inl (TypeError (quoted (obj_type_name (handler_func s)) @ '' object is not callable'')),
            logs,
            s\<lparr>sys_stdout := sys_stdout s,
               streams := (streams s)(next_stream s := [], Suc (next_stream s) := []),
               next_stream := Suc (Suc (next_stream s)),
               sys_stderr := sys_stderr s\<rparr>)"
  using assms
  by (cases "handler_func s")
    (simp_all add: invoke_captured_def StringIO_def call_handler_def split_def Let_def)

lemma invoke_captured_restores:
  "sys_stdout (snd (snd (invoke_captured event logs s))) = sys_stdout s"
  "sys_stderr (snd (snd (invoke_captured event logs s))) = sys_stderr s"
  by (cases "handler_func s";
      simp add: invoke_captured_callable invoke_captured_not_callable)+

lemma invoke_captured_logs:
  assumes "handler_func s = Callable h"
    and "h event = Invocation ws (Inr result)"
  shows "fst (snd (invoke_captured event logs s)) =
           logs @ channel_lines (out_text ws)
             @ map (\<lambda>line. ''[ERROR] '' @ line) (channel_lines (err_text ws))"
  using assms by (simp add: invoke_captured_callable)

lemma isspace_simps [simp]:
  "isspace CHR '' ''" "isspace CHR 0x0A"
  "\<not> isspace CHR ''f''" "\<not> isspace CHR ''d''" "\<not> isspace CHR ''s''" "\<not> isspace CHR ''o''"
  "\<not> isspace CHR ''h''"
  by (simp_all add: isspace_def)

section \<open>Captured log lines\<close>

text \<open>
  Claim C6, as the code has it. When the loaded handler returns, the log sequence is
  made channel by channel: the normal channel's text, if there is any, with the white
  space at both of its ends stripped and then split at the line breaks; after it the
  error channel's text treated the same way, each piece prefixed with \<^verbatim>\<open>[ERROR] \<close>.
  The normal channel's lines come first whatever the order of the writes was.
\<close>

theorem captured_logs_strip_then_split:
  assumes "handler_func s = Callable h"
    and "h event = Invocation ws (Inr result)"
  shows "fst (snd (invoke_captured event [] s)) =
           (if out_text ws = [] then [] else split_nl (strip (out_text ws)))
             @ map (\<lambda>line. ''[ERROR] '' @ line)
                 (if err_text ws = [] then [] else split_nl (strip (err_text ws)))"
  using assms by (simp add: invoke_captured_logs channel_lines_def)

theorem captured_logs_strip_then_split_witness:
  "fst (snd (invoke_captured JNull [] (loaded indent_handler))) =
     [''first'', ''second'', ''[ERROR] oops'']"
  using captured_logs_strip_then_split
          [of "loaded indent_handler" indent_handler JNull
              "[Out ''  first'', Out ''\<newline>'', Err ''oops'', Err ''\<newline>'',
                Out ''second'', Out ''\<newline>'']"
              "Serializable (JInt 1)"]
  by (simp add: loaded_def indent_handler_def strip_def)

text \<open>
  The claim as stated fails on a line that starts with blanks: the specification's
  reading keeps them, the code strips them.
\<close>

theorem captured_logs_counterexample:
  "fst (snd (invoke_captured JNull [] (loaded indent_handler)))
     \<noteq> spec_logs (writes (indent_handler JNull))
   \<and> spec_logs (writes (indent_handler JNull)) = [''  first'', ''second'', ''[ERROR] oops'']"
proof -
  have "handler_func (loaded indent_handler) = Callable indent_handler"
    by (simp add: loaded_def)
  then have code: "fst (snd (invoke_captured JNull [] (loaded indent_handler)))
                     = [''first'', ''second'', ''[ERROR] oops'']"
    by (simp add: invoke_captured_logs [OF _ indent_handler_def] channel_lines_def strip_def)
  have spec: "spec_logs (writes (indent_handler JNull))
                = [''  first'', ''second'', ''[ERROR] oops'']"
    by (simp add: indent_handler_def spec_logs_def spec_channel_lines_def)
  show ?thesis
    unfolding code spec by simp
qed

lemma send_error_envelope:
  "send_json_response 500 (error_envelope env d e logs) =
     (None,
      [Head 500,
       Body (JObj [(''status'', JStr ''error''), (''duration_ms'', JInt d),
                   (''error'', JStr (exn_str e)), (''stack'', JStr (format_exc env e)),
                   (''logs'', JArr (map JStr logs))])])"
  by (simp add: send_json_response_def error_envelope_def)

lemma send_success_envelope:
  "send_json_response 200 (success_envelope d (Serializable r) logs) =
     (None,
      [Head 200,
       Body (JObj [(''status'', JStr ''success''), (''duration_ms'', JInt d),
                   (''response'', r), (''logs'', JArr (map JStr logs))])])"
  by (simp add: send_json_response_def success_envelope_def)

lemma do_POST_invoke_not_loaded:
  assumes "handler_func s = PyNone"
  shows "do_POST_invoke env req s =
           (None,
            [Head 500,
             Body (JObj [(''status'', JStr ''error''),
                         (''error'', JStr (not_loaded_message (load_error s)))])],
            s)"
  using assms by (simp add: do_POST_invoke_def send_json_response_def)

lemma prims_fixed [simp]:
  "handler_func (print_stdout t s) = handler_func s"
  "handler_func (print_stderr t s) = handler_func s"
  "handler_func (snd (time_now env s)) = handler_func s"
  "calls (print_stdout t s) = calls s"
  "calls (print_stderr t s) = calls s"
  "calls (snd (time_now env s)) = calls s"
  "sys_stdout (print_stdout t s) = sys_stdout s"
  "sys_stdout (print_stderr t s) = sys_stdout s"
  "sys_stdout (snd (time_now env s)) = sys_stdout s"
  "sys_stderr (print_stdout t s) = sys_stderr s"
  "sys_stderr (print_stderr t s) = sys_stderr s"
  "sys_stderr (snd (time_now env s)) = sys_stderr s"
  "clock_reads (print_stdout t s) = clock_reads s"
  "clock_reads (print_stderr t s) = clock_reads s"
  "clock_reads (snd (time_now env s)) = Suc (clock_reads s)"
  "fst (time_now env s) = time_time env (clock_reads s)"
  by (simp_all add: print_stdout_def print_stderr_def stream_write_def time_now_def)

lemma invoke_try_loads_fails:
  "json_loads env body = Inl e \<Longrightarrow> invoke_try env body t0 s = (Some e, [], [], s)"
  by (simp add: invoke_try_def)

lemma invoke_try_not_a_dict:
  assumes "json_loads env body = Inr parsed" and "type_name parsed \<noteq> ''dict''"
  shows "invoke_try env body t0 s =
           (Some (AttributeError
                    (quoted (type_name parsed) @ '' object has no attribute '' @ quoted ''get'')),
            [], [], s)"
  using assms by (cases parsed) (simp_all add: invoke_try_def)

text \<open>The \<^verbatim>\<open>except\<close> clause of lines 200 to 212.\<close>

lemma do_POST_invoke_except:
  assumes "handler_func s \<noteq> PyNone"
    and "read_body env req = Inr body"
    and "invoke_try env body (time_time env (clock_reads s)) (snd (time_now env s))
           = (Some e, logs, w, s2)"
    and "is_Exception e"
  shows "do_POST_invoke env req s =
           (None,
            w @ [Head 500,
                 Body (JObj [(''status'', JStr ''error''),
                             (''duration_ms'',
                                JInt (int_of_float ((time_time env (clock_reads s2)
                                   - time_time env (clock_reads s)) * 1000))),
                             (''error'', JStr (exn_str e)), (''stack'', JStr (format_exc env e)),
                             (''logs'', JArr (map JStr logs))])],
            print_stderr (''[Runtime] Function failed: '' @ exn_str e) (snd (time_now env s2)))"
  using assms
  by (simp add: do_POST_invoke_def split_def Let_def send_error_envelope)

lemma invoke_try_restores:
  "sys_stdout (snd (snd (snd (invoke_try env body t0 s)))) = sys_stdout s
   \<and> sys_stderr (snd (snd (snd (invoke_try env body t0 s)))) = sys_stderr s"
proof (cases "json_loads env body")
  case (Inl e)
  then show ?thesis by (simp add: invoke_try_def)
next
  case (Inr parsed)
  show ?thesis
  proof (cases "dict_get parsed ''event'' parsed")
    case (Inl e)
    with Inr show ?thesis by (simp add: invoke_try_def)
  next
    case ev: (Inr event)
    define s1 where
      "s1 = print_stdout (''[Runtime] Invoking function with event: '' @ json_dumps env event) s"
    obtain res logs s2 where cap: "invoke_captured event [] s1 = (res, logs, s2)"
      by (cases "invoke_captured event [] s1") auto
    have s2: "sys_stdout s2 = sys_stdout s" "sys_stderr s2 = sys_stderr s"
      using invoke_captured_restores [of event "[]" s1] cap by (simp_all add: s1_def)
    show ?thesis
    proof (cases res)
      case (Inl e)
      with Inr ev cap [unfolded s1_def] s2 show ?thesis
        by (simp add: invoke_try_def)
    next
      case (Inr result)
      with \<open>json_loads env body = Inr parsed\<close> ev cap [unfolded s1_def] s2 show ?thesis
        by (simp add: invoke_try_def split_def Let_def split: option.splits)
    qed
  qed
qed

lemma do_POST_invoke_restores:
  "sys_stdout (snd (snd (do_POST_invoke env req s))) = sys_stdout s
   \<and> sys_stderr (snd (snd (do_POST_invoke env req s))) = sys_stderr s"
proof (cases "handler_func s = PyNone")
  case True
  then show ?thesis by (simp add: do_POST_invoke_not_loaded)
next
  case False
  show ?thesis
  proof (cases "read_body env req")
    case (Inl e)
    with False show ?thesis by (simp add: do_POST_invoke_def)
  next
    case (Inr body)
    obtain ex logs w s2 where
      t: "invoke_try env body (time_time env (clock_reads s)) (snd (time_now env s))
            = (ex, logs, w, s2)"
      by (cases "invoke_try env body (time_time env (clock_reads s)) (snd (time_now env s))")
        auto
    have s2: "sys_stdout s2 = sys_stdout s" "sys_stderr s2 = sys_stderr s"
      using invoke_try_restores
              [of env body "time_time env (clock_reads s)" "snd (time_now env s)"] t
      by simp_all
    from False Inr t s2 show ?thesis
      by (simp add: do_POST_invoke_def split_def Let_def split: option.splits)
  qed
qed

lemma dict_get_JObj: "dict_get (JObj kvs) ''event'' (JObj kvs) = Inr (event_of kvs)"
  by (simp add: event_of_def)

text \<open>The body of the outer \<^verbatim>\<open>try\<close> when a callable handler gets a JSON object.\<close>

lemma invoke_try_callable:
  assumes "handler_func s = Callable h"
    and "json_loads env body = Inr (JObj kvs)"
    and "h (event_of kvs) = Invocation ws res"
  shows "fst (invoke_try env body t0 s) =
           (case res of
              Inl e \<Rightarrow> Some e
            | Inr (Serializable r) \<Rightarrow> None
            | Inr (NotSerializable t) \<Rightarrow>
                Some (TypeError (''Object of type '' @ t @ '' is not JSON serializable'')))"
    and "fst (snd (invoke_try env body t0 s)) =
           (case res of
              Inl e \<Rightarrow> []
            | Inr result \<Rightarrow>
                channel_lines (out_text ws)
                  @ map (\<lambda>line. ''[ERROR] '' @ line) (channel_lines (err_text ws)))"
    and "fst (snd (snd (invoke_try env body t0 s))) =
           (case res of
              Inl e \<Rightarrow> []
            | Inr (Serializable r) \<Rightarrow>
                [Head 200,
                 Body (JObj [(''status'', JStr ''success''),
                             (''duration_ms'',
                                JInt (int_of_float ((time_time env (clock_reads s) - t0) * 1000))),
                             (''response'', r),
                             (''logs'', JArr (map JStr
                                (channel_lines (out_text ws)
                                   @ map (\<lambda>line. ''[ERROR] '' @ line)
                                       (channel_lines (err_text ws)))))])]
            | Inr (NotSerializable t) \<Rightarrow> [Head 200])"
    and "calls (snd (snd (snd (invoke_try env body t0 s)))) = calls s @ [event_of kvs]"
    and "clock_reads (snd (snd (snd (invoke_try env body t0 s)))) =
           (case res of Inl e \<Rightarrow> clock_reads s | Inr result \<Rightarrow> Suc (clock_reads s))"
proof -
  define s1 where
    "s1 = print_stdout
            (''[Runtime] Invoking function with event: '' @ json_dumps env (event_of kvs)) s"
  have "handler_func s1 = Callable h"
    using assms(1) by (simp add: s1_def)
  note cap = invoke_captured_callable [OF this, of "event_of kvs" "[]"]
  have fixed: "calls s1 = calls s" "clock_reads s1 = clock_reads s"
    by (simp_all add: s1_def)
  have unfold: "invoke_try env body t0 s =
      (case invoke_captured (event_of kvs) [] s1 of
         (Inl e, logs, s2) \<Rightarrow> (Some e, logs, [], s2)
       | (Inr result, logs, s2) \<Rightarrow>
           (let (t, s3) = time_now env s2;
                duration_ms = int_of_float ((t - t0) * 1000);
                (ex, w) = send_json_response 200 (success_envelope duration_ms result logs)
            in case ex of
                 Some e \<Rightarrow> (Some e, logs, w, s3)
               | None \<Rightarrow>
                   (None, logs, w,
                    print_stdout
                      (''[Runtime] Function completed in '' @ str_int duration_ms @ ''ms'') s3)))"
    using assms(2) by (simp add: invoke_try_def event_of_def s1_def)
  show "fst (invoke_try env body t0 s) =
           (case res of
              Inl e \<Rightarrow> Some e
            | Inr (Serializable r) \<Rightarrow> None
            | Inr (NotSerializable t) \<Rightarrow>
                Some (TypeError (''Object of type '' @ t @ '' is not JSON serializable'')))"
    unfolding unfold cap
    using assms(3)
    by (simp add: split_def Let_def send_json_response_def success_envelope_def
        split: sum.splits retval.splits)
  show "fst (snd (invoke_try env body t0 s)) =
           (case res of
              Inl e \<Rightarrow> []
            | Inr result \<Rightarrow>
                channel_lines (out_text ws)
                  @ map (\<lambda>line. ''[ERROR] '' @ line) (channel_lines (err_text ws)))"
    unfolding unfold cap
    using assms(3)
    by (simp add: split_def Let_def send_json_response_def success_envelope_def
        split: sum.splits retval.splits)
  show "fst (snd (snd (invoke_try env body t0 s))) =
           (case res of
              Inl e \<Rightarrow> []
            | Inr (Serializable r) \<Rightarrow>
                [Head 200,
                 Body (JObj [(''status'', JStr ''success''),
                             (''duration_ms'',
                                JInt (int_of_float ((time_time env (clock_reads s) - t0) * 1000))),
                             (''response'', r),
                             (''logs'', JArr (map JStr
                                (channel_lines (out_text ws)
                                   @ map (\<lambda>line. ''[ERROR] '' @ line)
                                       (channel_lines (err_text ws)))))])]
            | Inr (NotSerializable t) \<Rightarrow> [Head 200])"
    unfolding unfold cap
    using assms(3) fixed
    by (simp add: split_def Let_def send_json_response_def success_envelope_def
        split: sum.splits retval.splits)
  show "calls (snd (snd (snd (invoke_try env body t0 s)))) = calls s @ [event_of kvs]"
    unfolding unfold cap
    using assms(3) fixed
    by (simp add: split_def Let_def send_json_response_def success_envelope_def
        split: sum.splits retval.splits)
  show "clock_reads (snd (snd (snd (invoke_try env body t0 s)))) =
           (case res of Inl e \<Rightarrow> clock_reads s | Inr result \<Rightarrow> Suc (clock_reads s))"
    unfolding unfold cap
    using assms(3) fixed
    by (simp add: split_def Let_def send_json_response_def success_envelope_def
        split: sum.splits retval.splits)
qed

lemma do_POST_invoke_try_done:
  assumes "handler_func s \<noteq> PyNone"
    and "read_body env req = Inr body"
    and "invoke_try env body (time_time env (clock_reads s)) (snd (time_now env s))
           = (None, logs, w, s2)"
  shows "do_POST_invoke env req s = (None, w, s2)"
  using assms by (simp add: do_POST_invoke_def split_def Let_def)

lemma do_POST_invoke_propagates:
  assumes "handler_func s \<noteq> PyNone"
    and "read_body env req = Inr body"
    and "invoke_try env body (time_time env (clock_reads s)) (snd (time_now env s))
           = (Some e, logs, w, s2)"
    and "\<not> is_Exception e"
  shows "do_POST_invoke env req s = (Some e, w, s2)"
  using assms by (simp add: do_POST_invoke_def split_def Let_def)

lemma do_POST_invoke_calls:
  assumes "handler_func s = Callable h"
    and "read_body env req = Inr body"
    and "json_loads env body = Inr (JObj kvs)"
  shows "calls (snd (snd (do_POST_invoke env req s))) = calls s @ [event_of kvs]"
proof -
  let ?t0 = "time_time env (clock_reads s)"
  let ?s0 = "snd (time_now env s)"
  have h0: "handler_func ?s0 = Callable h" and ne: "handler_func s \<noteq> PyNone"
    using assms(1) by simp_all
  obtain ws res where h: "h (event_of kvs) = Invocation ws res"
    by (cases "h (event_of kvs)") auto
  obtain ex logs w s2 where t: "invoke_try env body ?t0 ?s0 = (ex, logs, w, s2)"
    by (cases "invoke_try env body ?t0 ?s0") auto
  have c: "calls s2 = calls s @ [event_of kvs]"
    using invoke_try_callable(4) [OF h0 assms(3) h, of ?t0] t by simp
  show ?thesis
  proof (cases ex)
    case None
    with t c show ?thesis
      by (simp add: do_POST_invoke_try_done [OF ne assms(2)])
  next
    case (Some e)
    with t c show ?thesis
      by (cases "is_Exception e")
        (simp_all add: do_POST_invoke_except [OF ne assms(2)]
          do_POST_invoke_propagates [OF ne assms(2)])
  qed
qed

lemma do_POST_invoke_returns:
  assumes "handler_func s = Callable h"
    and "read_body env req = Inr body"
    and "json_loads env body = Inr (JObj kvs)"
    and "h (event_of kvs) = Invocation ws (Inr (Serializable r))"
  shows "fst (do_POST_invoke env req s) = None"
    and "fst (snd (do_POST_invoke env req s)) =
           [Head 200,
            Body (JObj [(''status'', JStr ''success''),
                        (''duration_ms'', JInt (duration_of env s)),
                        (''response'', r),
                        (''logs'', JArr (map JStr
                           (channel_lines (out_text ws)
                              @ map (\<lambda>line. ''[ERROR] '' @ line)
                                  (channel_lines (err_text ws)))))])]"
proof -
  let ?t0 = "time_time env (clock_reads s)"
  let ?s0 = "snd (time_now env s)"
  have h0: "handler_func ?s0 = Callable h" and ne: "handler_func s \<noteq> PyNone"
    using assms(1) by simp_all
  obtain ex logs w s2 where t: "invoke_try env body ?t0 ?s0 = (ex, logs, w, s2)"
    by (cases "invoke_try env body ?t0 ?s0") auto
  have ex: "ex = None"
    using invoke_try_callable(1) [OF h0 assms(3,4), of ?t0] t by simp
  have w: "w = [Head 200,
            Body (JObj [(''status'', JStr ''success''),
                        (''duration_ms'', JInt (duration_of env s)),
                        (''response'', r),
                        (''logs'', JArr (map JStr
                           (channel_lines (out_text ws)
                              @ map (\<lambda>line. ''[ERROR] '' @ line)
                                  (channel_lines (err_text ws)))))])]"
    using invoke_try_callable(3) [OF h0 assms(3,4), of ?t0] t by (simp add: duration_of_def)
  from t ex have "do_POST_invoke env req s = (None, w, s2)"
    by (simp add: do_POST_invoke_try_done [OF ne assms(2)])
  with w show "fst (do_POST_invoke env req s) = None"
    and "fst (snd (do_POST_invoke env req s)) =
           [Head 200,
            Body (JObj [(''status'', JStr ''success''),
                        (''duration_ms'', JInt (duration_of env s)),
                        (''response'', r),
                        (''logs'', JArr (map JStr
                           (channel_lines (out_text ws)
                              @ map (\<lambda>line. ''[ERROR] '' @ line)
                                  (channel_lines (err_text ws)))))])]"
    by simp_all
qed

text \<open>
  When the handler raises, lines 175 to 181 are skipped: the envelope's log list is the
  empty list that line 155 made, whatever the handler wrote.
\<close>

lemma do_POST_invoke_raises:
  assumes "handler_func s = Callable h"
    and "read_body env req = Inr body"
    and "json_loads env body = Inr (JObj kvs)"
    and "h (event_of kvs) = Invocation ws (Inl e)"
    and "is_Exception e"
  shows "fst (do_POST_invoke env req s) = None"
    and "fst (snd (do_POST_invoke env req s)) =
           [Head 500,
            Body (JObj [(''status'', JStr ''error''),
                        (''duration_ms'', JInt (duration_of env s)),
                        (''error'', JStr (exn_str e)),
                        (''stack'', JStr (format_exc env e)),
                        (''logs'', JArr [])])]"
proof -
  let ?t0 = "time_time env (clock_reads s)"
  let ?s0 = "snd (time_now env s)"
  have h0: "handler_func ?s0 = Callable h" and ne: "handler_func s \<noteq> PyNone"
    using assms(1) by simp_all
  obtain ex logs w s2 where t: "invoke_try env body ?t0 ?s0 = (ex, logs, w, s2)"
    by (cases "invoke_try env body ?t0 ?s0") auto
  have ex: "ex = Some e"
    using invoke_try_callable(1) [OF h0 assms(3,4), of ?t0] t by simp
  have logs: "logs = []"
    using invoke_try_callable(2) [OF h0 assms(3,4), of ?t0] t by simp
  have w: "w = []"
    using invoke_try_callable(3) [OF h0 assms(3,4), of ?t0] t by simp
  have c: "clock_reads s2 = Suc (clock_reads s)"
    using invoke_try_callable(5) [OF h0 assms(3,4), of ?t0] t by simp
  note r = do_POST_invoke_except [OF ne assms(2) t [unfolded ex] assms(5)]
  show "fst (do_POST_invoke env req s) = None"
    by (simp add: r)
  show "fst (snd (do_POST_invoke env req s)) =
           [Head 500,
            Body (JObj [(''status'', JStr ''error''),
                        (''duration_ms'', JInt (duration_of env s)),
                        (''error'', JStr (exn_str e)),
                        (''stack'', JStr (format_exc env e)),
                        (''logs'', JArr [])])]"
    by (simp add: r logs w c duration_of_def)
qed

lemma load_except_result [simp]:
  "fst (load_except env e s) = (if is_Exception e then Inr False else Inl e)"
  "load_error (snd (load_except env e s)) =
     (if is_Exception e then Some (exn_str e) else load_error s)"
  "handler_func (snd (load_except env e s)) = handler_func s"
  "code_file (snd (load_except env e s)) = code_file s"
  "sys_stdout (snd (load_except env e s)) = sys_stdout s"
  "sys_stderr (snd (load_except env e s)) = sys_stderr s"
  "calls (snd (load_except env e s)) = calls s"
  "clock_reads (snd (load_except env e s)) = clock_reads s"
  by (simp_all add: load_except_def print_stderr_def stream_write_def)

lemma load_function_fixed [simp]:
  "code_file (snd (load_function env s)) = code_file s"
  "sys_stdout (snd (load_function env s)) = sys_stdout s"
  "sys_stderr (snd (load_function env s)) = sys_stderr s"
  "calls (snd (load_function env s)) = calls s"
  "clock_reads (snd (load_function env s)) = clock_reads s"
  by (simp_all add: load_function_def print_stderr_def print_stdout_def stream_write_def
      Let_def AttributeError_def TypeError_def split: option.splits sum.splits)

lemma load_function_true_iff:
  "fst (load_function env s) = Inr b \<Longrightarrow> b = (load_error (snd (load_function env s)) = None)"
  by (auto simp: load_function_def print_stderr_def print_stdout_def stream_write_def
      Let_def AttributeError_def TypeError_def split: option.splits sum.splits if_splits)

lemma load_function_absent:
  assumes "code_file s = None"
  shows "fst (load_function env s) = Inr False"
    and "load_error (snd (load_function env s)) =
           Some (''Function code not found at '' @ FUNCTION_CODE_PATH env)"
    and "handler_func (snd (load_function env s)) = handler_func s"
  using assms
  by (simp_all add: load_function_def print_stderr_def stream_write_def Let_def)

lemma load_function_exec_fails:
  assumes "code_file s = Some src" and "exec_module env src = Inl e" and "is_Exception e"
  shows "fst (load_function env s) = Inr False"
    and "load_error (snd (load_function env s)) = Some (exn_str e)"
    and "handler_func (snd (load_function env s)) = handler_func s"
  using assms by (simp_all add: load_function_def)

lemma load_function_handler_missing:
  assumes "code_file s = Some src" and "exec_module env src = Inr ns"
    and "ns (FUNCTION_HANDLER env) = None"
  shows "fst (load_function env s) = Inr False"
    and "load_error (snd (load_function env s)) =
           Some (''Handler '' @ quoted (FUNCTION_HANDLER env) @ '' not found in module'')"
    and "handler_func (snd (load_function env s)) = handler_func s"
  using assms by (simp_all add: load_function_def AttributeError_def)

lemma load_function_not_callable:
  assumes "code_file s = Some src" and "exec_module env src = Inr ns"
    and "ns (FUNCTION_HANDLER env) = Some obj" and "\<not> callable obj"
  shows "fst (load_function env s) = Inr False"
    and "load_error (snd (load_function env s)) =
           Some (''Handler '' @ quoted (FUNCTION_HANDLER env) @ '' is not callable'')"
    and "handler_func (snd (load_function env s)) = obj"
  using assms by (simp_all add: load_function_def TypeError_def Let_def)

lemma load_function_ok:
  assumes "code_file s = Some src" and "exec_module env src = Inr ns"
    and "ns (FUNCTION_HANDLER env) = Some obj" and "callable obj"
  shows "fst (load_function env s) = Inr True"
    and "load_error (snd (load_function env s)) = None"
    and "handler_func (snd (load_function env s)) = obj"
  using assms
  by (simp_all add: load_function_def Let_def print_stdout_def stream_write_def)

lemma do_POST_at_invoke: "path req = ''/invoke'' \<Longrightarrow> do_POST env req s = do_POST_invoke env req s"
  by (simp add: do_POST_def)

lemma do_POST_at_write_code:
  "path req = ''/write-code'' \<Longrightarrow> do_POST env req s = do_POST_write_code env req s"
  by (simp add: do_POST_def)

lemma do_POST_at_reload: "path req = ''/reload'' \<Longrightarrow> do_POST env req s = do_POST_reload env s"
  by (simp add: do_POST_def)

lemma post_simps [simp]:
  "path (post p body) = p"
  "body \<noteq> [] \<Longrightarrow> \<not> list_ex digit7 body \<Longrightarrow> read_body demo_env (post p body) = Inr body"
  "list_ex digit7 body \<Longrightarrow>
     read_body demo_env (post p body) = Inl (PyExn True ''UnicodeDecodeError'' ''invalid start byte'')"
  "read_body env (post p []) = Inr ''{}''"
  by (auto simp: post_def read_body_def demo_env_def demo_decode_def)

lemma demo_env_simps [simp]:
  "FUNCTION_CODE_PATH demo_env = ''/function/code.py''"
  "FUNCTION_HANDLER demo_env = ''handler''"
  "exec_module demo_env = demo_exec"
  "decode_utf8 demo_env = demo_decode"
  "json_loads demo_env = demo_loads"
  "format_exc demo_env = demo_format_exc"
  "time_time demo_env n = real n"
  by (simp_all add: demo_env_def)

lemma duration_of_demo [simp]: "duration_of demo_env s = 1000"
  by (simp add: duration_of_def int_of_float_def)

lemma initial_simps [simp]:
  "handler_func (initial file) = PyNone"
  "load_error (initial file) = None"
  "code_file (initial file) = file"
  "sys_stdout (initial file) = 0"
  "sys_stderr (initial file) = 1"
  "calls (initial file) = []"
  "clock_reads (initial file) = 0"
  by (simp_all add: initial_def)

lemma loaded_simps [simp]:
  "handler_func (loaded h) = Callable h"
  "load_error (loaded h) = None"
  "code_file (loaded h) = None"
  "sys_stdout (loaded h) = 0"
  "sys_stderr (loaded h) = 1"
  "calls (loaded h) = []"
  "clock_reads (loaded h) = 0"
  by (simp_all add: loaded_def)

section \<open>Invoke without a handler\<close>

text \<open>
  Claim C5, as the code has it. A POST /invoke that finds \<^verbatim>\<open>handler_func\<close> equal to
  \<^verbatim>\<open>None\<close> is answered at once with status 500 and a body of two fields, without
  a call, without a reading of the clock and without any other change of the state.
  The error message is the recorded load error when there is one (and it is not the
  empty string), and \<^verbatim>\<open>Function not loaded\<close> otherwise.
\<close>

theorem invoke_without_handler:
  assumes "path req = ''/invoke''"
    and "handler_func s = PyNone"
  shows "do_POST env req s =
           (None,
            [Head 500,
             Body (JObj [(''status'', JStr ''error''),
                         (''error'',
                            JStr (case load_error s of
                                    None \<Rightarrow> ''Function not loaded''
                                  | Some t \<Rightarrow> if t = [] then ''Function not loaded'' else t))])],
            s)"
  using assms
  by (simp add: do_POST_at_invoke do_POST_invoke_not_loaded not_loaded_message_def)

theorem invoke_without_handler_witness:
  "do_POST demo_env (post ''/invoke'' ''{}'') (initial None) =
     (None,
      [Head 500,
       Body (JObj [(''status'', JStr ''error''), (''error'', JStr ''Function not loaded'')])],
      initial None)
   \<and> mentions ''Function not loaded'' ''not loaded''"
  using invoke_without_handler [of "post ''/invoke'' ''{}''" "initial None" demo_env]
  by simp

text \<open>
  The claim as stated fails after a start without a code file: the answer carries the
  load error, which does not mention "not loaded".
\<close>

theorem invoke_without_handler_counterexample:
  "handler_func startup_without_code = PyNone
   \<and> fst (snd (do_POST demo_env (post ''/invoke'' ''{}'') startup_without_code)) =
       [Head 500,
        Body (JObj [(''status'', JStr ''error''),
                    (''error'', JStr ''Function code not found at /function/code.py'')])]
   \<and> \<not> mentions ''Function code not found at /function/code.py'' ''not loaded''"
proof -
  have absent: "code_file (initial None) = None"
    by simp
  have h: "handler_func startup_without_code = PyNone"
    by (simp add: startup_without_code_def load_function_absent(3) [OF absent])
  have e: "load_error startup_without_code = Some ''Function code not found at /function/code.py''"
    by (simp add: startup_without_code_def load_function_absent(2) [OF absent])
  have "do_POST_invoke demo_env (post ''/invoke'' ''{}'') startup_without_code =
          (None,
           [Head 500,
            Body (JObj [(''status'', JStr ''error''),
                        (''error'', JStr ''Function code not found at /function/code.py'')])],
           startup_without_code)"
    by (simp add: do_POST_invoke_not_loaded [OF h] e not_loaded_message_def)
  then show ?thesis
    using h by (simp add: do_POST_at_invoke)
qed

lemma demo_loads_simps [simp]:
  \<open>demo_loads ''{}'' = Inr (JObj [])\<close>
  \<open>demo_loads ''{"x": 1}'' = Inr (JObj [(''x'', JInt 1)])\<close>
  \<open>demo_loads ''{"event": {"x": 1}}'' = Inr (JObj [(''event'', JObj [(''x'', JInt 1)])])\<close>
  \<open>demo_loads ''{"code": ""}'' = Inr (JObj [(''code'', JStr [])])\<close>
  \<open>demo_loads ''{"code": "def handler(event) return event"}'' =
     Inr (JObj [(''code'', JStr broken_source)])\<close>
  \<open>demo_loads ''[1, 2]'' = Inr (JArr [JInt 1, JInt 2])\<close>
  \<open>demo_loads ''not json'' =
     Inl (PyExn True ''JSONDecodeError'' ''Expecting value: line 1 column 1 (char 0)'')\<close>
  by (simp_all add: demo_loads_def demo_codec_def)

lemma do_POST_invoke_loads_fails:
  assumes "handler_func s \<noteq> PyNone"
    and "read_body env req = Inr body"
    and "json_loads env body = Inl e"
    and "is_Exception e"
  shows "do_POST_invoke env req s =
           (None,
            [Head 500,
             Body (JObj [(''status'', JStr ''error''),
                         (''duration_ms'', JInt (duration_of env s)),
                         (''error'', JStr (exn_str e)),
                         (''stack'', JStr (format_exc env e)),
                         (''logs'', JArr [])])],
            print_stderr (''[Runtime] Function failed: '' @ exn_str e)
              (snd (time_now env (snd (time_now env s)))))"
  using do_POST_invoke_except [OF assms(1,2) invoke_try_loads_fails [OF assms(3)] assms(4)]
  by (simp add: duration_of_def)

lemma do_POST_invoke_not_a_dict:
  assumes "handler_func s \<noteq> PyNone"
    and "read_body env req = Inr body"
    and "json_loads env body = Inr parsed"
    and "type_name parsed \<noteq> ''dict''"
  shows "do_POST_invoke env req s =
           (None,
            [Head 500,
             Body (JObj [(''status'', JStr ''error''),
                         (''duration_ms'', JInt (duration_of env s)),
                         (''error'', JStr (quoted (type_name parsed)
                                             @ '' object has no attribute '' @ quoted ''get'')),
                         (''stack'', JStr (format_exc env (AttributeError
                                            (quoted (type_name parsed)
                                               @ '' object has no attribute '' @ quoted ''get'')))),
                         (''logs'', JArr [])])],
            print_stderr (''[Runtime] Function failed: '' @ quoted (type_name parsed)
                            @ '' object has no attribute '' @ quoted ''get'')
              (snd (time_now env (snd (time_now env s)))))"
  using do_POST_invoke_except [OF assms(1,2) invoke_try_not_a_dict [OF assms(3,4)]]
  by (simp add: duration_of_def AttributeError_def)

section \<open>A body that is not JSON\<close>

text \<open>
  Lines 151 and 152 stand before the \<^verbatim>\<open>try\<close>. What they raise (a
  \<^verbatim>\<open>Content-Length\<close> that is not a number, bytes that are not UTF-8) leaves
  \<^verbatim>\<open>do_POST\<close>: nothing is sent and nothing is called. A request without content is
  given the body text \<^verbatim>\<open>{}\<close>.
\<close>

lemma read_body_cases:
  "content_length req = Inl e \<Longrightarrow> read_body env req = Inl e"
  "content_length req = Inr n \<Longrightarrow> n \<le> 0 \<Longrightarrow> read_body env req = Inr ''{}''"
  "content_length req = Inr n \<Longrightarrow> 0 < n \<Longrightarrow>
     read_body env req = decode_utf8 env (take (nat n) (rfile req))"
  by (simp_all add: read_body_def)

lemma do_POST_invoke_unreadable:
  assumes "handler_func s \<noteq> PyNone"
    and "read_body env req = Inl e"
  shows "do_POST_invoke env req s = (Some e, [], s)"
  using assms by (simp add: do_POST_invoke_def)

lemma undecodable_body_gets_no_response:
  "do_POST demo_env (post ''/invoke'' [CHR 0xFF]) (loaded echo_handler) =
     (Some (PyExn True ''UnicodeDecodeError'' ''invalid start byte''), [], loaded echo_handler)"
proof -
  have "handler_func (loaded echo_handler) \<noteq> PyNone"
    by simp
  moreover have "read_body demo_env (post ''/invoke'' [CHR 0xFF])
                   = Inl (PyExn True ''UnicodeDecodeError'' ''invalid start byte'')"
    by simp
  ultimately show ?thesis
    by (simp add: do_POST_at_invoke do_POST_invoke_unreadable)
qed

lemma empty_body_is_read_as_empty_object:
  "fst (snd (do_POST demo_env (post ''/invoke'' []) (loaded echo_handler))) =
     [Head 200,
      Body (JObj [(''status'', JStr ''success''), (''duration_ms'', JInt 1000),
                  (''response'', JObj []), (''logs'', JArr [])])]
   \<and> calls (snd (snd (do_POST demo_env (post ''/invoke'' []) (loaded echo_handler))))
       = [JObj []]"
proof -
  have h: "handler_func (loaded echo_handler) = Callable echo_handler"
    by simp
  have rb: "read_body demo_env (post ''/invoke'' []) = Inr ''{}''"
    by simp
  have jl: "json_loads demo_env ''{}'' = Inr (JObj [])"
    by simp
  have e: "echo_handler (event_of []) = Invocation [] (Inr (Serializable (JObj [])))"
    by (simp add: echo_handler_def event_of_def)
  from do_POST_invoke_returns(2) [OF h rb jl e] do_POST_invoke_calls [OF h rb jl]
  show ?thesis
    by (simp add: do_POST_at_invoke channel_lines_def event_of_def)
qed

text \<open>
  Claim C4, as the code has it. \<^verbatim>\<open>json.loads\<close> runs inside the \<^verbatim>\<open>try\<close> whose
  \<^verbatim>\<open>except Exception\<close> reports handler faults, on the body text that lines 151 and
  152 have made. With a handler loaded, a body text that \<^verbatim>\<open>json.loads\<close> rejects does
  not reach the handler, and the answer is the same envelope as for a handler fault:
  status 500, \<^verbatim>\<open>status\<close> "error", a duration, the decoder's message, a stack and an
  empty log list.
\<close>

theorem invalid_json_answered_as_fault:
  assumes "path req = ''/invoke''"
    and "handler_func s \<noteq> PyNone"
    and "read_body env req = Inr body"
    and "json_loads env body = Inl e"
    and "is_Exception e"
  shows "fst (do_POST env req s) = None
       \<and> fst (snd (do_POST env req s)) =
           [Head 500,
            Body (JObj [(''status'', JStr ''error''),
                        (''duration_ms'', JInt (duration_of env s)),
                        (''error'', JStr (exn_str e)),
                        (''stack'', JStr (format_exc env e)),
                        (''logs'', JArr [])])]
       \<and> calls (snd (snd (do_POST env req s))) = calls s"
  using assms(1) do_POST_invoke_loads_fails [OF assms(2-5)]
  by (simp add: do_POST_at_invoke)

theorem invalid_json_answered_as_fault_witness:
  "fst (do_POST demo_env (post ''/invoke'' ''not json'') (loaded echo_handler)) = None
   \<and> fst (snd (do_POST demo_env (post ''/invoke'' ''not json'') (loaded echo_handler))) =
       [Head 500,
        Body (JObj [(''status'', JStr ''error''),
                    (''duration_ms'', JInt 1000),
                    (''error'', JStr ''Expecting value: line 1 column 1 (char 0)''),
                    (''stack'', JStr (demo_format_exc
                       (PyExn True ''JSONDecodeError''
                          ''Expecting value: line 1 column 1 (char 0)''))),
                    (''logs'', JArr [])])]
   \<and> calls (snd (snd (do_POST demo_env (post ''/invoke'' ''not json'') (loaded echo_handler))))
       = []"
  using invalid_json_answered_as_fault
          [of "post ''/invoke'' ''not json''" "loaded echo_handler" demo_env "''not json''"
              "PyExn True ''JSONDecodeError'' ''Expecting value: line 1 column 1 (char 0)''"]
  by simp

text \<open>
  The claim as stated fails: the answer to a body that is not JSON is an
  invocation-fault envelope.
\<close>

theorem invalid_json_counterexample:
  "fault_envelope
     (last (fst (snd (do_POST demo_env (post ''/invoke'' ''not json'') (loaded echo_handler)))))"
proof -
  have ne: "handler_func (loaded echo_handler) \<noteq> PyNone"
    by simp
  have rb: "read_body demo_env (post ''/invoke'' ''not json'') = Inr ''not json''"
    by simp
  have jl: "json_loads demo_env ''not json''
              = Inl (PyExn True ''JSONDecodeError'' ''Expecting value: line 1 column 1 (char 0)'')"
    by simp
  have "is_Exception (PyExn True ''JSONDecodeError'' ''Expecting value: line 1 column 1 (char 0)'')"
    by simp
  from do_POST_invoke_loads_fails [OF ne rb jl this]
  show ?thesis
    by (simp add: do_POST_at_invoke)
qed

section \<open>The event of an invocation\<close>

text \<open>
  Claim C3, as the code has it. For a POST /invoke whose body is a JSON object, the
  loaded handler is called once, with the object's \<^verbatim>\<open>event\<close> field when the object
  has one and with the whole object otherwise.
\<close>

theorem invoke_event_of_object:
  assumes "path req = ''/invoke''"
    and "handler_func s = Callable h"
    and "read_body env req = Inr body"
    and "json_loads env body = Inr (JObj kvs)"
  shows "calls (snd (snd (do_POST env req s))) =
           calls s @ [case map_of kvs ''event'' of Some v \<Rightarrow> v | None \<Rightarrow> JObj kvs]"
  using assms(1) do_POST_invoke_calls [OF assms(2-4)]
  by (simp add: do_POST_at_invoke event_of_def split: option.splits)

theorem invoke_event_of_object_witness:
  \<open>calls (snd (snd (do_POST demo_env (post ''/invoke'' ''{"event": {"x": 1}}'')
                      (loaded echo_handler)))) = [JObj [(''x'', JInt 1)]]
   \<and> calls (snd (snd (do_POST demo_env (post ''/invoke'' ''{"x": 1}'')
                        (loaded echo_handler)))) = [JObj [(''x'', JInt 1)]]\<close>
  using invoke_event_of_object
          [of \<open>post ''/invoke'' ''{"event": {"x": 1}}''\<close> "loaded echo_handler" echo_handler
              demo_env \<open>''{"event": {"x": 1}}''\<close> "[(''event'', JObj [(''x'', JInt 1)])]"]
        invoke_event_of_object
          [of \<open>post ''/invoke'' ''{"x": 1}''\<close> "loaded echo_handler" echo_handler
              demo_env \<open>''{"x": 1}''\<close> "[(''x'', JInt 1)]"]
  by simp

text \<open>
  The claim as stated fails on a body that is a JSON array: \<^verbatim>\<open>parsed.get\<close> raises,
  the handler is not called, and the answer is the fault envelope with status 500.
\<close>

theorem invoke_bare_array_counterexample:
  "calls (snd (snd (do_POST demo_env (post ''/invoke'' ''[1, 2]'') (loaded echo_handler)))) = []
   \<and> hd (fst (snd (do_POST demo_env (post ''/invoke'' ''[1, 2]'') (loaded echo_handler))))
       = Head 500
   \<and> fault_envelope
       (last (fst (snd (do_POST demo_env (post ''/invoke'' ''[1, 2]'') (loaded echo_handler)))))"
proof -
  have ne: "handler_func (loaded echo_handler) \<noteq> PyNone"
    by simp
  have rb: "read_body demo_env (post ''/invoke'' ''[1, 2]'') = Inr ''[1, 2]''"
    by simp
  have jl: "json_loads demo_env ''[1, 2]'' = Inr (JArr [JInt 1, JInt 2])"
    by simp
  have "type_name (JArr [JInt 1, JInt 2]) \<noteq> ''dict''"
    by simp
  from do_POST_invoke_not_a_dict [OF ne rb jl this]
  show ?thesis
    by (simp add: do_POST_at_invoke)
qed

section \<open>Logs of a handler that raises\<close>

text \<open>
  Claim C2 at its own example. The handler prints \<^verbatim>\<open>hello\<close> and raises: the error
  envelope carries the message and the stack, and an empty log list.
\<close>

theorem hello_then_raise_envelope_has_no_logs:
  "fst (snd (do_POST demo_env (post ''/invoke'' ''{}'') (loaded hello_raise_handler))) =
     [Head 500,
      Body (JObj [(''status'', JStr ''error''),
                  (''duration_ms'', JInt 1000),
                  (''error'', JStr ''boom''),
                  (''stack'', JStr (demo_format_exc (PyExn True ''ValueError'' ''boom''))),
                  (''logs'', JArr [])])]"
proof -
  have h: "handler_func (loaded hello_raise_handler) = Callable hello_raise_handler"
    by simp
  have rb: "read_body demo_env (post ''/invoke'' ''{}'') = Inr ''{}''"
    by simp
  have jl: "json_loads demo_env ''{}'' = Inr (JObj [])"
    by simp
  have r: "hello_raise_handler (event_of [])
             = Invocation [Out ''hello'', Out ''\<newline>''] (Inl (PyExn True ''ValueError'' ''boom''))"
    by (simp add: hello_raise_handler_def)
  have "is_Exception (PyExn True ''ValueError'' ''boom'')"
    by simp
  from do_POST_invoke_raises(2) [OF h rb jl r this]
  show ?thesis
    by (simp add: do_POST_at_invoke)
qed

section \<open>Restoring the channels\<close>

lemma write_file_fixed [simp]:
  "sys_stdout (snd (write_file code s)) = sys_stdout s"
  "sys_stderr (snd (write_file code s)) = sys_stderr s"
  "handler_func (snd (write_file code s)) = handler_func s"
  "load_error (snd (write_file code s)) = load_error s"
  "calls (snd (write_file code s)) = calls s"
  by (cases code; simp add: write_file_def)+

lemma write_code_try_restores:
  "sys_stdout (snd (snd (write_code_try env body s))) = sys_stdout s
   \<and> sys_stderr (snd (snd (write_code_try env body s))) = sys_stderr s"
proof (cases "json_loads env body")
  case (Inl e)
  then show ?thesis by (simp add: write_code_try_def)
next
  case (Inr data)
  show ?thesis
  proof (cases "dict_get data ''code'' JNull")
    case (Inl e)
    with Inr show ?thesis by (simp add: write_code_try_def)
  next
    case code: (Inr code)
    obtain ex s1 where w: "write_file code s = (ex, s1)"
      by (cases "write_file code s") auto
    have s1: "sys_stdout s1 = sys_stdout s" "sys_stderr s1 = sys_stderr s"
      using write_file_fixed(1,2) [of code s] w by simp_all
    obtain r s2 where l: "load_function env s1 = (r, s2)"
      by (cases "load_function env s1") auto
    have s2: "sys_stdout s2 = sys_stdout s" "sys_stderr s2 = sys_stderr s"
      using load_function_fixed(2,3) [of env s1] l s1 by simp_all
    from Inr code w l s1 s2 show ?thesis
      by (cases ex; cases r) (simp_all add: write_code_try_def split_def Let_def)
  qed
qed

lemma do_POST_write_code_restores:
  "sys_stdout (snd (snd (do_POST_write_code env req s))) = sys_stdout s
   \<and> sys_stderr (snd (snd (do_POST_write_code env req s))) = sys_stderr s"
proof (cases "read_body env req")
  case (Inl e)
  then show ?thesis by (simp add: do_POST_write_code_def)
next
  case (Inr body)
  obtain ex w s1 where t: "write_code_try env body s = (ex, w, s1)"
    by (cases "write_code_try env body s") auto
  have "sys_stdout s1 = sys_stdout s" "sys_stderr s1 = sys_stderr s"
    using write_code_try_restores [of env body s] t by simp_all
  with Inr t show ?thesis
    by (cases ex) (simp_all add: do_POST_write_code_def split_def Let_def)
qed

lemma do_POST_reload_restores:
  "sys_stdout (snd (snd (do_POST_reload env s))) = sys_stdout s
   \<and> sys_stderr (snd (snd (do_POST_reload env s))) = sys_stderr s"
proof -
  obtain r s1 where l: "load_function env s = (r, s1)"
    by (cases "load_function env s") auto
  have "sys_stdout s1 = sys_stdout s" "sys_stderr s1 = sys_stderr s"
    using load_function_fixed(2,3) [of env s] l by simp_all
  with l show ?thesis
    by (cases r) (simp_all add: do_POST_reload_def split_def Let_def)
qed

text \<open>
  Claim C7. The \<^verbatim>\<open>finally\<close> of lines 183 to 186 runs whether the handler call
  returns or raises, so the redirection of lines 165 to 186 leaves \<^verbatim>\<open>sys.stdout\<close>
  and \<^verbatim>\<open>sys.stderr\<close> bound to the streams they were bound to before; and so does
  every request, whatever its path, its body and the state it finds.
\<close>

theorem channels_restored_on_every_exit:
  "sys_stdout (snd (snd (invoke_captured event logs s))) = sys_stdout s
   \<and> sys_stderr (snd (snd (invoke_captured event logs s))) = sys_stderr s
   \<and> sys_stdout (snd (snd (do_POST env req s))) = sys_stdout s
   \<and> sys_stderr (snd (snd (do_POST env req s))) = sys_stderr s"
  by (simp add: invoke_captured_restores do_POST_def do_POST_invoke_restores
      do_POST_write_code_restores do_POST_reload_restores split_def)

theorem channels_restored_on_every_exit_witness:
  "sys_stdout (snd (snd (invoke_captured JNull [] (loaded hello_raise_handler)))) = 0
   \<and> sys_stderr (snd (snd (invoke_captured JNull [] (loaded hello_raise_handler)))) = 1
   \<and> sys_stdout (snd (snd (do_POST demo_env (post ''/invoke'' ''{}'')
                              (loaded hello_raise_handler)))) = 0
   \<and> sys_stderr (snd (snd (do_POST demo_env (post ''/invoke'' ''{}'')
                              (loaded hello_raise_handler)))) = 1"
  using channels_restored_on_every_exit
          [of JNull "[]" "loaded hello_raise_handler" demo_env "post ''/invoke'' ''{}''"]
  by simp

section \<open>Write-code without code\<close>

lemma write_code_try_no_code:
  assumes "json_loads env body = Inr (JObj kvs)"
    and "map_of kvs ''code'' = None \<or> (\<exists>v. map_of kvs ''code'' = Some v \<and> \<not> truthy v)"
  shows "write_code_try env body s =
           (None, [Head 400, Body (JObj [(''error'', JStr ''Missing code field'')])], s)"
  using assms by (auto simp: write_code_try_def send_json_response_def)

lemma do_POST_write_code_no_code:
  assumes "read_body env req = Inr body"
    and "json_loads env body = Inr (JObj kvs)"
    and "map_of kvs ''code'' = None \<or> (\<exists>v. map_of kvs ''code'' = Some v \<and> \<not> truthy v)"
  shows "do_POST_write_code env req s =
           (None, [Head 400, Body (JObj [(''error'', JStr ''Missing code field'')])], s)"
  by (simp add: do_POST_write_code_def assms(1) write_code_try_no_code [OF assms(2,3)])

text \<open>Lines 109 and 110 stand before the \<^verbatim>\<open>try\<close> as well.\<close>

lemma do_POST_write_code_unreadable:
  assumes "read_body env req = Inl e"
  shows "do_POST_write_code env req s = (Some e, [], s)"
  using assms by (simp add: do_POST_write_code_def)

text \<open>
  A body that is valid JSON but not an object has no \<^verbatim>\<open>get\<close>: the request is
  answered with status 500, and the state stays as it was as well.
\<close>

lemma do_POST_write_code_not_a_dict:
  assumes "read_body env req = Inr body"
    and "json_loads env body = Inr data"
    and "type_name data \<noteq> ''dict''"
  shows "do_POST_write_code env req s =
           (None,
            [Head 500,
             Body (JObj [(''error'',
                          JStr (quoted (type_name data) @ '' object has no attribute ''
                                  @ quoted ''get''))])],
            s)"
  using assms
  by (cases data)
    (simp_all add: do_POST_write_code_def write_code_try_def send_json_response_def
      AttributeError_def)



text \<open>
  Claim C10. A \<^verbatim>\<open>code\<close> field whose value is the empty string, \<^verbatim>\<open>null\<close>,
  \<^verbatim>\<open>false\<close> or 0 is answered exactly as a missing field is: status 400 with
  \<^verbatim>\<open>Missing code field\<close>, no write to the file, no reload, the state as it was.
\<close>

theorem write_code_falsy_code_as_missing:
  assumes "path req = ''/write-code''"
    and "read_body env req = Inr body"
    and "json_loads env body = Inr (JObj kvs)"
    and "map_of kvs ''code'' = Some v"
    and "v = JStr [] \<or> v = JNull \<or> v = JBool False \<or> v = JInt 0"
  shows "do_POST env req s =
           (None, [Head 400, Body (JObj [(''error'', JStr ''Missing code field'')])], s)
       \<and> (\<forall>req' body' kvs'. path req' = ''/write-code''
              \<and> read_body env req' = Inr body'
              \<and> json_loads env body' = Inr (JObj kvs')
              \<and> map_of kvs' ''code'' = None
            \<longrightarrow> do_POST env req s = do_POST env req' s)"
proof -
  have "\<not> truthy v"
    using assms(5) by auto
  with assms(4) have
    "map_of kvs ''code'' = None \<or> (\<exists>v. map_of kvs ''code'' = Some v \<and> \<not> truthy v)"
    by simp
  from do_POST_write_code_no_code [OF assms(2,3) this] assms(1)
  have here: "do_POST env req s =
           (None, [Head 400, Body (JObj [(''error'', JStr ''Missing code field'')])], s)"
    by (simp add: do_POST_at_write_code)
  have "do_POST env req' s =
           (None, [Head 400, Body (JObj [(''error'', JStr ''Missing code field'')])], s)"
    if "path req' = ''/write-code''" and "read_body env req' = Inr body'"
      and "json_loads env body' = Inr (JObj kvs')" and "map_of kvs' ''code'' = None"
    for req' body' kvs'
    using that(1,4) do_POST_write_code_no_code [OF that(2,3)]
    by (simp add: do_POST_at_write_code)
  with here show ?thesis
    by auto
qed

theorem write_code_falsy_code_as_missing_witness:
  \<open>do_POST demo_env (post ''/write-code'' ''{"code": ""}'') (loaded echo_handler) =
     (None, [Head 400, Body (JObj [(''error'', JStr ''Missing code field'')])],
      loaded echo_handler)
   \<and> do_POST demo_env (post ''/write-code'' ''{"code": ""}'') (loaded echo_handler) =
      do_POST demo_env (post ''/write-code'' ''{"x": 1}'') (loaded echo_handler)\<close>
proof -
  note t = write_code_falsy_code_as_missing
             [of \<open>post ''/write-code'' ''{"code": ""}''\<close> demo_env \<open>''{"code": ""}''\<close>
                 "[(''code'', JStr [])]" "JStr []" "loaded echo_handler"]
  have prem: \<open>path (post ''/write-code'' ''{"code": ""}'') = ''/write-code''\<close>
    \<open>read_body demo_env (post ''/write-code'' ''{"code": ""}'') = Inr ''{"code": ""}''\<close>
    \<open>json_loads demo_env ''{"code": ""}'' = Inr (JObj [(''code'', JStr [])])\<close>
    "map_of [(''code'', JStr [])] ''code'' = Some (JStr [])"
    by simp_all
  have first: \<open>do_POST demo_env (post ''/write-code'' ''{"code": ""}'') (loaded echo_handler) =
     (None, [Head 400, Body (JObj [(''error'', JStr ''Missing code field'')])],
      loaded echo_handler)\<close>
    using t [OF prem] by simp
  have \<open>path (post ''/write-code'' ''{"x": 1}'') = ''/write-code''
          \<and> read_body demo_env (post ''/write-code'' ''{"x": 1}'') = Inr ''{"x": 1}''
          \<and> json_loads demo_env ''{"x": 1}'' = Inr (JObj [(''x'', JInt 1)])
          \<and> map_of [(''x'', JInt 1)] ''code'' = None\<close>
    by simp
  with t [OF prem] have
    \<open>do_POST demo_env (post ''/write-code'' ''{"code": ""}'') (loaded echo_handler) =
      do_POST demo_env (post ''/write-code'' ''{"x": 1}'') (loaded echo_handler)\<close>
    by blast
  with first show ?thesis
    by simp
qed

section \<open>The result of a load and the recorded error\<close>

lemma str_or_null_eq_JNull [simp]: "(str_or_null m = JNull) = (m = None)"
  by (cases m) (simp_all add: str_or_null_def)

lemma do_POST_reload_response:
  assumes "fst (load_function env s) = Inr b"
  shows "do_POST_reload env s =
           (None,
            [Head (if b then 200 else 500),
             Body (JObj [(''success'', JBool b),
                         (''error'', str_or_null (load_error (snd (load_function env s))))])],
            snd (load_function env s))"
  using assms
  by (cases "load_function env s")
    (simp add: do_POST_reload_def send_json_response_def)

lemma do_POST_reload_consistent:
  "list_all success_iff_null (fst (snd (do_POST_reload env s)))"
proof (cases "fst (load_function env s)")
  case (Inl e)
  then show ?thesis
    by (cases "load_function env s") (simp add: do_POST_reload_def)
next
  case (Inr b)
  from load_function_true_iff [OF this] do_POST_reload_response [OF this] show ?thesis
    by simp
qed

lemma write_code_try_consistent:
  "list_all success_iff_null (fst (snd (write_code_try env body s)))"
proof (cases "json_loads env body")
  case (Inl e)
  then show ?thesis by (simp add: write_code_try_def)
next
  case (Inr data)
  show ?thesis
  proof (cases "dict_get data ''code'' JNull")
    case (Inl e)
    with Inr show ?thesis by (simp add: write_code_try_def)
  next
    case code: (Inr code)
    obtain ex s1 where w: "write_file code s = (ex, s1)"
      by (cases "write_file code s") auto
    obtain r s2 where l: "load_function env s1 = (r, s2)"
      by (cases "load_function env s1") auto
    have "r = Inr b \<Longrightarrow> b = (load_error s2 = None)" for b
      using load_function_true_iff [of env s1 b] l by simp
    with Inr code w l show ?thesis
      by (cases ex; cases r)
        (auto simp: write_code_try_def split_def Let_def send_json_response_def)
  qed
qed

lemma do_POST_write_code_consistent:
  "list_all success_iff_null (fst (snd (do_POST_write_code env req s)))"
proof (cases "read_body env req")
  case (Inl e)
  then show ?thesis by (simp add: do_POST_write_code_def)
next
  case (Inr body)
  obtain ex w s1 where t: "write_code_try env body s = (ex, w, s1)"
    by (cases "write_code_try env body s") auto
  have "list_all success_iff_null w"
    using write_code_try_consistent [of env body s] t by simp
  with Inr t show ?thesis
    by (cases ex)
      (simp_all add: do_POST_write_code_def split_def Let_def send_json_response_def)
qed

text \<open>
  Claim C9. When \<^verbatim>\<open>load_function\<close> returns, it returns \<^verbatim>\<open>True\<close> exactly when it
  leaves \<^verbatim>\<open>load_error\<close> equal to \<^verbatim>\<open>None\<close>; so a successful load clears an
  earlier error. The response to /reload carries the returned value as \<^verbatim>\<open>success\<close>
  and the recorded error as \<^verbatim>\<open>error\<close>, and in every response body to /reload and
  to /write-code \<^verbatim>\<open>success\<close> is \<^verbatim>\<open>true\<close> exactly when \<^verbatim>\<open>error\<close> is
  \<^verbatim>\<open>null\<close>.
\<close>

theorem load_returns_true_iff_no_error:
  "(\<forall>b. fst (load_function env s) = Inr b \<longrightarrow>
       b = (load_error (snd (load_function env s)) = None)
       \<and> fst (snd (do_POST_reload env s)) =
           [Head (if b then 200 else 500),
            Body (JObj [(''success'', JBool b),
                        (''error'', str_or_null (load_error (snd (load_function env s))))])])
   \<and> list_all success_iff_null (fst (snd (do_POST_reload env s)))
   \<and> list_all success_iff_null (fst (snd (do_POST_write_code env req s)))"
  by (simp add: load_function_true_iff do_POST_reload_response do_POST_reload_consistent
      do_POST_write_code_consistent)

lemma demo_exec_simps [simp]:
  "demo_exec echo_source = Inr [''handler'' \<mapsto> Callable echo_handler]"
  "demo_exec broken_source = Inl (PyExn True ''SyntaxError'' ''invalid syntax (code.py, line 1)'')"
  by (simp_all add: demo_exec_def echo_source_def broken_source_def)

lemma broken_source_not_empty [simp]: "broken_source \<noteq> []"
  by (simp add: broken_source_def)

theorem load_returns_true_iff_no_error_witness:
  "load_error code_arrives = Some ''Function code not found at /function/code.py''
   \<and> fst (load_function demo_env code_arrives) = Inr True
   \<and> load_error (snd (load_function demo_env code_arrives)) = None
   \<and> fst (snd (do_POST_reload demo_env code_arrives)) =
       [Head 200, Body (JObj [(''success'', JBool True), (''error'', JNull)])]"
proof -
  have absent: "code_file (initial None) = None"
    by simp
  have before: "load_error code_arrives = Some ''Function code not found at /function/code.py''"
    using load_function_absent(2) [OF absent, of demo_env]
    by (simp add: code_arrives_def startup_without_code_def)
  have at_path: "code_file code_arrives = Some echo_source"
    by (simp add: code_arrives_def)
  have ex: "exec_module demo_env echo_source = Inr [''handler'' \<mapsto> Callable echo_handler]"
    by simp
  have look: "[''handler'' \<mapsto> Callable echo_handler] (FUNCTION_HANDLER demo_env)
                = Some (Callable echo_handler)"
    by simp
  have ok: "fst (load_function demo_env code_arrives) = Inr True"
    by (rule load_function_ok(1) [OF at_path ex look]) simp
  from load_returns_true_iff_no_error [of demo_env code_arrives] ok
  have "True = (load_error (snd (load_function demo_env code_arrives)) = None)
        \<and> fst (snd (do_POST_reload demo_env code_arrives)) =
            [Head (if True then 200 else 500),
             Body (JObj [(''success'', JBool True),
                         (''error'', str_or_null
                            (load_error (snd (load_function demo_env code_arrives))))])]"
    by blast
  with before ok show ?thesis
    by simp
qed

section \<open>A load that fails\<close>

lemma do_POST_write_code_reloads:
  assumes "read_body env req = Inr body"
    and "json_loads env body = Inr (JObj kvs)"
    and "map_of kvs ''code'' = Some (JStr txt)"
    and "txt \<noteq> []"
    and "fst (load_function env (s\<lparr>code_file := Some txt\<rparr>)) = Inr b"
  shows "do_POST_write_code env req s =
           (None,
            [Head (if b then 200 else 500),
             Body (JObj [(''success'', JBool b),
                         (''error'', str_or_null
                            (load_error (snd (load_function env (s\<lparr>code_file := Some txt\<rparr>)))))])],
            snd (load_function env (s\<lparr>code_file := Some txt\<rparr>)))"
  using assms
  by (cases "load_function env (s\<lparr>code_file := Some txt\<rparr>)")
    (simp add: do_POST_write_code_def write_code_try_def write_file_def
      send_json_response_def)

text \<open>
  Claim C1, as the code has it. \<^verbatim>\<open>load_function\<close> assigns \<^verbatim>\<open>handler_func\<close> in one
  place only, line 56, and never resets it. A load that fails because the source file
  is absent, because executing the module raises, or because the entry point is
  missing returns \<^verbatim>\<open>False\<close>, records an error, and leaves the handler slot as it
  was. If there was no handler, a following invoke is answered as not loaded; if there
  was one, a following invoke calls it.
\<close>

theorem failed_load_keeps_handler_slot:
  assumes "code_file s = None
           \<or> (\<exists>src e. code_file s = Some src \<and> exec_module env src = Inl e \<and> is_Exception e)
           \<or> (\<exists>src ns. code_file s = Some src \<and> exec_module env src = Inr ns
                 \<and> ns (FUNCTION_HANDLER env) = None)"
  shows "fst (load_function env s) = Inr False
       \<and> load_error (snd (load_function env s)) \<noteq> None
       \<and> handler_func (snd (load_function env s)) = handler_func s
       \<and> (handler_func s = PyNone \<and> path req = ''/invoke'' \<longrightarrow>
            do_POST env req (snd (load_function env s)) =
              (None,
               [Head 500,
                Body (JObj [(''status'', JStr ''error''),
                            (''error'', JStr (not_loaded_message
                               (load_error (snd (load_function env s)))))])],
               snd (load_function env s)))
       \<and> (\<forall>h body kvs. handler_func s = Callable h \<and> path req = ''/invoke''
              \<and> read_body env req = Inr body
              \<and> json_loads env body = Inr (JObj kvs) \<longrightarrow>
            calls (snd (snd (do_POST env req (snd (load_function env s)))))
              = calls s @ [event_of kvs])"
proof -
  have load: "fst (load_function env s) = Inr False
       \<and> load_error (snd (load_function env s)) \<noteq> None
       \<and> handler_func (snd (load_function env s)) = handler_func s"
    using assms
    by (elim disjE exE conjE)
      (simp_all add: load_function_absent load_function_exec_fails
        load_function_handler_missing)
  then have keep: "handler_func (snd (load_function env s)) = handler_func s"
    by simp
  have none: "handler_func s = PyNone \<and> path req = ''/invoke'' \<longrightarrow>
            do_POST env req (snd (load_function env s)) =
              (None,
               [Head 500,
                Body (JObj [(''status'', JStr ''error''),
                            (''error'', JStr (not_loaded_message
                               (load_error (snd (load_function env s)))))])],
               snd (load_function env s))"
    using keep by (simp add: do_POST_at_invoke do_POST_invoke_not_loaded)
  have some: "\<forall>h body kvs. handler_func s = Callable h \<and> path req = ''/invoke''
              \<and> read_body env req = Inr body
              \<and> json_loads env body = Inr (JObj kvs) \<longrightarrow>
            calls (snd (snd (do_POST env req (snd (load_function env s)))))
              = calls s @ [event_of kvs]"
  proof (intro allI impI, elim conjE)
    fix h body kvs
    assume h: "handler_func s = Callable h" and p: "path req = ''/invoke''"
      and rb: "read_body env req = Inr body"
      and j: "json_loads env body = Inr (JObj kvs)"
    from h keep have "handler_func (snd (load_function env s)) = Callable h"
      by simp
    from do_POST_invoke_calls [OF this rb j] p
    show "calls (snd (snd (do_POST env req (snd (load_function env s)))))
            = calls s @ [event_of kvs]"
      by (simp add: do_POST_at_invoke)
  qed
  from load none some show ?thesis
    by blast
qed

theorem failed_load_keeps_handler_slot_witness:
  \<open>fst (load_function demo_env (loaded echo_handler)) = Inr False
   \<and> handler_func (snd (load_function demo_env (loaded echo_handler))) = Callable echo_handler
   \<and> calls (snd (snd (do_POST demo_env (post ''/invoke'' ''{"x": 1}'')
                        (snd (load_function demo_env (loaded echo_handler))))))
       = [JObj [(''x'', JInt 1)]]\<close>
proof -
  have "code_file (loaded echo_handler) = None
           \<or> (\<exists>src e. code_file (loaded echo_handler) = Some src
                 \<and> exec_module demo_env src = Inl e \<and> is_Exception e)
           \<or> (\<exists>src ns. code_file (loaded echo_handler) = Some src
                 \<and> exec_module demo_env src = Inr ns
                 \<and> ns (FUNCTION_HANDLER demo_env) = None)"
    by simp
  note t = failed_load_keeps_handler_slot
             [OF this, of \<open>post ''/invoke'' ''{"x": 1}''\<close>]
  from t have
    \<open>handler_func (loaded echo_handler) = Callable echo_handler
       \<and> path (post ''/invoke'' ''{"x": 1}'') = ''/invoke''
       \<and> read_body demo_env (post ''/invoke'' ''{"x": 1}'') = Inr ''{"x": 1}''
       \<and> json_loads demo_env ''{"x": 1}'' = Inr (JObj [(''x'', JInt 1)]) \<longrightarrow>
     calls (snd (snd (do_POST demo_env (post ''/invoke'' ''{"x": 1}'')
                        (snd (load_function demo_env (loaded echo_handler))))))
       = calls (loaded echo_handler) @ [event_of [(''x'', JInt 1)]]\<close>
    by blast
  then have
    \<open>calls (snd (snd (do_POST demo_env (post ''/invoke'' ''{"x": 1}'')
                        (snd (load_function demo_env (loaded echo_handler))))))
       = [JObj [(''x'', JInt 1)]]\<close>
    by (simp add: event_of_def)
  with t show ?thesis
    by simp
qed

text \<open>
  The claim as stated fails. A process starts with a working module; a /write-code
  request then stores a module that does not parse. The load fails and the answer is
  500, but the handler slot still holds the handler of the first module, and the next
  invoke calls it and is answered with 200.
\<close>

lemma after_startup_simps [simp]:
  "handler_func after_startup = Callable echo_handler"
  "load_error after_startup = None"
  "calls after_startup = []"
proof -
  have at_path: "code_file (initial (Some echo_source)) = Some echo_source"
    by simp
  have ex: "exec_module demo_env echo_source = Inr [''handler'' \<mapsto> Callable echo_handler]"
    by simp
  have look: "[''handler'' \<mapsto> Callable echo_handler] (FUNCTION_HANDLER demo_env)
                = Some (Callable echo_handler)"
    by simp
  show "handler_func after_startup = Callable echo_handler"
    unfolding after_startup_def
    by (rule load_function_ok(3) [OF at_path ex look]) simp
  show "load_error after_startup = None"
    unfolding after_startup_def
    by (rule load_function_ok(2) [OF at_path ex look]) simp
  show "calls after_startup = []"
    by (simp add: after_startup_def)
qed

theorem failed_load_counterexample:
  \<open>fst (snd (do_POST demo_env bad_write after_startup)) =
     [Head 500,
      Body (JObj [(''success'', JBool False),
                  (''error'', JStr ''invalid syntax (code.py, line 1)'')])]
   \<and> handler_func after_bad_write = Callable echo_handler
   \<and> handler_func after_bad_write \<noteq> PyNone
   \<and> fst (snd (do_POST demo_env (post ''/invoke'' ''{"x": 1}'') after_bad_write)) =
       [Head 200,
        Body (JObj [(''status'', JStr ''success''), (''duration_ms'', JInt 1000),
                    (''response'', JObj [(''x'', JInt 1)]), (''logs'', JArr [])])]
   \<and> calls (snd (snd (do_POST demo_env (post ''/invoke'' ''{"x": 1}'') after_bad_write)))
       = [JObj [(''x'', JInt 1)]]\<close>
proof -
  let ?s1 = "after_startup\<lparr>code_file := Some broken_source\<rparr>"
  have at_path: "code_file ?s1 = Some broken_source"
    by simp
  have ex: "exec_module demo_env broken_source
              = Inl (PyExn True ''SyntaxError'' ''invalid syntax (code.py, line 1)'')"
    by simp
  note fails = load_function_exec_fails [OF at_path ex]
  have rb: \<open>read_body demo_env bad_write = Inr ''{"code": "def handler(event) return event"}''\<close>
    by (simp add: bad_write_def)
  have body: \<open>json_loads demo_env ''{"code": "def handler(event) return event"}''
                = Inr (JObj [(''code'', JStr broken_source)])\<close>
    by simp
  have written: "do_POST demo_env bad_write after_startup =
           (None,
            [Head 500,
             Body (JObj [(''success'', JBool False),
                         (''error'', JStr ''invalid syntax (code.py, line 1)'')])],
            snd (load_function demo_env ?s1))"
    using do_POST_write_code_reloads [OF rb body, of broken_source after_startup False] fails
    by (simp add: do_POST_at_write_code bad_write_def str_or_null_def)
  then have state: "after_bad_write = snd (load_function demo_env ?s1)"
    by (simp add: after_bad_write_def)
  have h: "handler_func after_bad_write = Callable echo_handler"
    using fails(3) by (simp add: state)
  have c: "calls after_bad_write = []"
    by (simp add: state)
  have rb': \<open>read_body demo_env (post ''/invoke'' ''{"x": 1}'') = Inr ''{"x": 1}''\<close>
    by simp
  have j: \<open>json_loads demo_env ''{"x": 1}'' = Inr (JObj [(''x'', JInt 1)])\<close>
    by simp
  have e: "echo_handler (event_of [(''x'', JInt 1)])
             = Invocation [] (Inr (Serializable (JObj [(''x'', JInt 1)])))"
    by (simp add: echo_handler_def event_of_def)
  from written h c do_POST_invoke_returns(2) [OF h rb' j e] do_POST_invoke_calls [OF h rb' j]
  show ?thesis
    by (simp add: do_POST_at_invoke channel_lines_def event_of_def)
qed

end
